theory Spec2Isabelle
  imports Main
begin

section \<open>JavaScript values and the runtime\<close>

text \<open>
  The module \<open>src/index.tsx\<close> is orchestration code: it sequences calls to the native
  module \<open>RNhotupdate\<close>, to a download manager, to the git helper and to the caller's
  callbacks. The embedding keeps that shape. A run of a function is the list of the
  effects it issues, in order, together with how its promise settles.

  A JavaScript number is an integer or \<open>NaN\<close> (versions and delays are integers; fractions
  and infinities are outside the model).
\<close>

datatype jsnum = NaN | Fin int

text \<open>
  An object is either an \<open>Error\<close> made by \<open>new Error(message)\<close> or some other object, kept
  opaque. Any value can be thrown, and a promise can reject with any value, \<open>undefined\<close>
  and \<open>null\<close> among them.
\<close>

datatype 'o obj = JSError string | Opaque 'o

datatype 'o jsval =
    JUndefined
  | JNull
  | JBool bool
  | JNumber jsnum
  | JString string
  | JObject "'o obj"

text \<open>Truthiness, as \<open>if (v)\<close>, \<open>!v\<close> and \<open>v || d\<close> read a value.\<close>

fun truthy_num :: "jsnum \<Rightarrow> bool" where
  "truthy_num NaN = False"
| "truthy_num (Fin i) = (i \<noteq> 0)"

fun truthy :: "'o jsval \<Rightarrow> bool" where
  "truthy JUndefined = False"
| "truthy JNull = False"
| "truthy (JBool b) = b"
| "truthy (JNumber n) = truthy_num n"
| "truthy (JString s) = (s \<noteq> [])"
| "truthy (JObject ob) = True"

text \<open>The comparison \<open>a <= b\<close> on numbers: false as soon as one side is \<open>NaN\<close>.\<close>

fun num_le :: "jsnum \<Rightarrow> jsnum \<Rightarrow> bool" where
  "num_le (Fin a) (Fin b) = (a \<le> b)"
| "num_le NaN b = False"
| "num_le (Fin a) NaN = False"

text \<open>
  What the code takes from the language runtime and does not implement itself is a
  parameter of the model: the coercion \<open>+s\<close> of a string to a number, the conversion of
  a number to a string (\<open>n + ''\<close>, string concatenation), the quoting of a string by
  \<open>JSON.stringify\<close>, the serialisation and \<open>toString()\<close> of an opaque object,
  \<open>JSON.parse\<close>, and the \<open>TypeError\<close> that reading a property of \<open>undefined\<close> or \<open>null\<close>
  throws. A serialisation, a \<open>toString()\<close> or a parse that throws returns \<open>Inl\<close> of the
  thrown value; the serialisation of an object can also be \<open>undefined\<close> (\<open>None\<close>), as it
  is for a function.
\<close>

record 'o runtime =
  ToNumber :: "string \<Rightarrow> jsnum"
  NumberToString :: "jsnum \<Rightarrow> string"
  QuoteJSONString :: "string \<Rightarrow> string"
  SerializeJSONObject :: "'o \<Rightarrow> 'o jsval + string option"
  ObjectToString :: "'o \<Rightarrow> 'o jsval + string"
  JSON_parse :: "string \<Rightarrow> 'o jsval + 'o jsval"
  PropertyOfNullish :: "'o jsval \<Rightarrow> 'o jsval"

text \<open>
  \<open>JSON.stringify(v)\<close>: \<open>undefined\<close> for \<open>undefined\<close> (the result \<open>None\<close>), \<open>"null"\<close> for
  \<open>null\<close> and for \<open>NaN\<close>, \<open>"{}"\<close> for an \<open>Error\<close> (it has no enumerable property), and
  the runtime's text otherwise.
\<close>

fun JSON_stringify :: "'o runtime \<Rightarrow> 'o jsval \<Rightarrow> 'o jsval + string option" where
  "JSON_stringify rt JUndefined = Inr None"
| "JSON_stringify rt JNull = Inr (Some ''null'')"
| "JSON_stringify rt (JBool b) = Inr (Some (if b then ''true'' else ''false''))"
| "JSON_stringify rt (JNumber NaN) = Inr (Some ''null'')"
| "JSON_stringify rt (JNumber (Fin i)) = Inr (Some (NumberToString rt (Fin i)))"
| "JSON_stringify rt (JString s) = Inr (Some (QuoteJSONString rt s))"
| "JSON_stringify rt (JObject (JSError m)) = Inr (Some ''{}'')"
| "JSON_stringify rt (JObject (Opaque ob)) = SerializeJSONObject rt ob"

text \<open>
  \<open>e.toString()\<close> on a caught value: reading \<open>toString\<close> of \<open>undefined\<close> or \<open>null\<close> throws;
  a boolean, a number and a string give their text; an \<open>Error\<close> gives its name and
  message; another object answers by its own method.
\<close>

fun toString :: "'o runtime \<Rightarrow> 'o jsval \<Rightarrow> 'o jsval + string" where
  "toString rt JUndefined = Inl (PropertyOfNullish rt JUndefined)"
| "toString rt JNull = Inl (PropertyOfNullish rt JNull)"
| "toString rt (JBool b) = Inr (if b then ''true'' else ''false'')"
| "toString rt (JNumber n) = Inr (NumberToString rt n)"
| "toString rt (JString s) = Inr s"
| "toString rt (JObject (JSError m)) = Inr (if m = [] then ''Error'' else ''Error: '' @ m)"
| "toString rt (JObject (Opaque ob)) = ObjectToString rt ob"


section \<open>Effects\<close>

text \<open>
  One event per call that leaves the module: the methods of the native module
  \<open>RNhotupdate\<close>, the download manager's \<open>fetch\<close>, the git helper, \<open>setTimeout\<close>,
  \<open>console.error\<close> and the caller's callbacks. Every \<open>setTimeout\<close> of the source
  schedules \<open>resetApp()\<close>; the event keeps the delay. A callback event is recorded when
  the callback is supplied and therefore called.
\<close>

datatype 'o event =
    GetCurrentVersion
  | SetCurrentVersion string
  | GetUpdateMetadata
  | SetUpdateMetadata "string option"
  | SetupBundlePath string "string option"
  | SetExactBundlePath string
  | DeleteBundle
  | Restart
  | Fetch string "'o option"
  | SetTimeout jsnum
  | ConsoleError "string option"
  | UpdateSuccess
  | UpdateFail "string option"
  | GitGetConfig
  | GitGetBranchName
  | GitPull string "string option"
  | GitClone string "string option" string "string option"
  | OnPullSuccess
  | OnPullFailed "string option"
  | OnCloneSuccess
  | OnCloneFailed "string option"
  | OnFinishProgress

text \<open>
  A computation: the events it issued, and \<open>Inr\<close> of its value or \<open>Inl\<close> of the value
  it threw (for an \<open>async\<close> function: the promise resolved or rejected).
\<close>

type_synonym ('o, 'a) io = "'o event list \<times> ('o jsval + 'a)"

definition io_return :: "'a \<Rightarrow> ('o, 'a) io" where
  "io_return a = ([], Inr a)"

definition emit :: "'o event \<Rightarrow> ('o, unit) io" where
  "emit ev = ([ev], Inr ())"

text \<open>A call to a collaborator: the event, and the collaborator's answer (\<open>await\<close>ed).\<close>

definition call :: "'o event \<Rightarrow> 'o jsval + 'a \<Rightarrow> ('o, 'a) io" where
  "call ev answer = ([ev], answer)"

text \<open>Sequencing: a throw skips the rest.\<close>

definition io_bind :: "('o, 'a) io \<Rightarrow> ('a \<Rightarrow> ('o, 'b) io) \<Rightarrow> ('o, 'b) io" where
  "io_bind m f =
     (case m of
        (es, Inl e) \<Rightarrow> (es, Inl e)
      | (es, Inr a) \<Rightarrow> (case f a of (es', r) \<Rightarrow> (es @ es', r)))"

text \<open>\<open>try { m } catch (e) { h e }\<close>.\<close>

definition io_catch :: "('o, 'a) io \<Rightarrow> ('o jsval \<Rightarrow> ('o, 'a) io) \<Rightarrow> ('o, 'a) io" where
  "io_catch m h =
     (case m of
        (es, Inl e) \<Rightarrow> (case h e of (es', r) \<Rightarrow> (es @ es', r))
      | (es, Inr a) \<Rightarrow> (es, Inr a))"

text \<open>\<open>try { m } finally { fin }\<close>: \<open>fin\<close> runs on both exits; its own throw wins.\<close>

definition io_finally :: "('o, 'a) io \<Rightarrow> ('o, unit) io \<Rightarrow> ('o, 'a) io" where
  "io_finally m fin =
     (case m of (es, r) \<Rightarrow>
        (case fin of
           (es', Inl e) \<Rightarrow> (es @ es', Inl e)
         | (es', Inr u) \<Rightarrow> (es @ es', r)))"

text \<open>
  A promise that is not awaited: the call is issued, its outcome is dropped (a rejection
  stays unhandled and does not reach the caller).
\<close>

definition detach :: "('o, 'a) io \<Rightarrow> ('o, unit) io" where
  "detach m = (fst m, Inr ())"

text \<open>
  A callback of the caller's is not supplied, or returns normally when called, or throws.
  An optional call \<open>f?.(...)\<close> does nothing when \<open>f\<close> is not supplied; otherwise the call
  is the event, and a throw propagates from the call site.
\<close>

datatype 'o cb = Absent | Returns | Throws "'o jsval"

definition cb_result :: "'o cb \<Rightarrow> 'o jsval + unit" where
  "cb_result f = (case f of Throws e \<Rightarrow> Inl e | _ \<Rightarrow> Inr ())"

definition callback :: "'o cb \<Rightarrow> 'o event \<Rightarrow> ('o, unit) io" where
  "callback f ev =
     (case f of
        Absent \<Rightarrow> io_return ()
      | Returns \<Rightarrow> emit ev
      | Throws e \<Rightarrow> ([ev], Inl e))"


section \<open>The collaborators\<close>

text \<open>
  The answers of the collaborators are the environment of a run. The native module
  (\<open>RNhotupdate\<close>), the git helper (\<open>./gits\<close>) and the download manager are not part of
  \<open>src/index.tsx\<close>; each method is a parameter giving how its promise settles. The two
  git queries run concurrently: \<open>git_getConfig_settles_first\<close> says which of the two
  promises settles first.
\<close>

record PullResult =
  pull_success :: bool
  pull_msg :: "string option"

record CloneResult =
  clone_success :: bool
  clone_msg :: "string option"
  clone_bundle :: "string option"

record 'o env =
  RN_getCurrentVersion :: "'o jsval + string"
  RN_setCurrentVersion :: "string \<Rightarrow> 'o jsval + bool"
  RN_getUpdateMetadata :: "'o jsval + string option"
  RN_setUpdateMetadata :: "string option \<Rightarrow> 'o jsval + bool"
  RN_setupBundlePath :: "string \<Rightarrow> string option \<Rightarrow> 'o jsval + bool"
  RN_setExactBundlePath :: "string \<Rightarrow> 'o jsval + bool"
  RN_deleteBundle :: "'o jsval + bool"
  DM_fetch :: "string \<Rightarrow> 'o option \<Rightarrow> 'o jsval + string"
  git_getConfig :: "'o jsval + 'o option"
  git_getBranchName :: "'o jsval + string option"
  git_getConfig_settles_first :: bool
  git_pullUpdate :: "string \<Rightarrow> string option \<Rightarrow> 'o jsval + PullResult"
  git_cloneRepo :: "string \<Rightarrow> string option \<Rightarrow> string \<Rightarrow> string option \<Rightarrow> 'o jsval + CloneResult"


section \<open>The wrappers of the native module\<close>

text \<open>
  \<open>downloadBundleFile\<close> configures the download manager (cache and path, by platform),
  fetches \<open>uri\<close> with the headers and returns \<open>res.path()\<close>. The trace keeps the fetch;
  the configuration and the progress callbacks, which the transport calls any number of
  times, are not traced.
\<close>

definition downloadBundleFile :: "'o env \<Rightarrow> string \<Rightarrow> 'o option \<Rightarrow> ('o, string) io" where
  "downloadBundleFile env uri hdrs = call (Fetch uri hdrs) (DM_fetch env uri hdrs)"

definition setupBundlePath :: "'o env \<Rightarrow> string \<Rightarrow> string option \<Rightarrow> ('o, bool) io" where
  "setupBundlePath env path extension =
     call (SetupBundlePath path extension) (RN_setupBundlePath env path extension)"

definition setupExactBundlePath :: "'o env \<Rightarrow> string \<Rightarrow> ('o, bool) io" where
  "setupExactBundlePath env path = call (SetExactBundlePath path) (RN_setExactBundlePath env path)"

definition deleteBundlePath :: "'o env \<Rightarrow> ('o, bool) io" where
  "deleteBundlePath env = call DeleteBundle (RN_deleteBundle env)"

definition getCurrentVersion :: "'o env \<Rightarrow> ('o, string) io" where
  "getCurrentVersion env = call GetCurrentVersion (RN_getCurrentVersion env)"

definition getVersionAsNumber :: "'o runtime \<Rightarrow> 'o env \<Rightarrow> ('o, jsnum) io" where
  "getVersionAsNumber rt env =
     io_bind (getCurrentVersion env) (\<lambda>rawVersion. io_return (ToNumber rt rawVersion))"

definition setCurrentVersion :: "'o runtime \<Rightarrow> 'o env \<Rightarrow> jsnum \<Rightarrow> ('o, bool) io" where
  "setCurrentVersion rt env version =
     call (SetCurrentVersion (NumberToString rt version))
       (RN_setCurrentVersion env (NumberToString rt version))"

definition resetApp :: "('o, unit) io" where
  "resetApp = emit Restart"

text \<open>
  \<open>removeBundle\<close> returns at once; what it does is the trace of the promise chain it
  starts. The \<open>then\<close> callback runs only when the deletion resolves.
\<close>

definition removeBundle :: "'o runtime \<Rightarrow> 'o env \<Rightarrow> bool option \<Rightarrow> 'o event list" where
  "removeBundle rt env restartAfterRemoved =
     fst (io_bind (deleteBundlePath env) (\<lambda>data.
       if data \<and> restartAfterRemoved = Some True then
         io_bind (emit (SetTimeout (Fin 300))) (\<lambda>u.
           if data then detach (setCurrentVersion rt env (Fin 0)) else io_return ())
       else io_return ()))"


section \<open>Metadata\<close>

text \<open>
  \<open>setUpdateMetadata\<close> serialises inside a \<open>try\<close>: when \<open>JSON.stringify\<close> throws, no
  native call is made and the promise rejects with a new \<open>Error\<close>.
\<close>

definition setUpdateMetadata :: "'o runtime \<Rightarrow> 'o env \<Rightarrow> 'o jsval \<Rightarrow> ('o, bool) io" where
  "setUpdateMetadata rt env metadata =
     (case JSON_stringify rt metadata of
        Inl error \<Rightarrow> ([], Inl (JObject (JSError ''Failed to stringify metadata'')))
      | Inr metadataString \<Rightarrow>
          call (SetUpdateMetadata metadataString) (RN_setUpdateMetadata env metadataString))"







section \<open>The archive flow\<close>

text \<open>
  \<open>UpdateOption\<close> (declared in \<open>./type\<close>), by the fields the code reads. A callback field
  says how the callback behaves; \<open>metadata\<close> is \<open>JUndefined\<close> when absent. The whole
  option object is optional.
\<close>

record 'o UpdateOption =
  headers :: "'o option"
  progress :: "'o cb"
  extensionBundle :: "string option"
  metadata :: "'o jsval"
  updateSuccess :: "'o cb"
  updateFail :: "'o cb"
  restartAfterInstall :: bool
  restartDelay :: "jsnum option"

definition installFail :: "'o runtime \<Rightarrow> 'o UpdateOption option \<Rightarrow> 'o jsval \<Rightarrow> ('o, unit) io" where
  "installFail rt option e =
     io_bind
       (case option of
          None \<Rightarrow> io_return ()
        | Some opt \<Rightarrow>
            if updateFail opt = Absent then io_return ()
            else io_bind ([], JSON_stringify rt e) (\<lambda>s. callback (updateFail opt) (UpdateFail s)))
       (\<lambda>u. io_bind ([], JSON_stringify rt e) (\<lambda>s. emit (ConsoleError s)))"

text \<open>The statements inside \<open>try\<close> (lines 134 to 160).\<close>

definition downloadBundleUri_try ::
  "'o runtime \<Rightarrow> 'o env \<Rightarrow> string \<Rightarrow> jsnum option \<Rightarrow> 'o UpdateOption option \<Rightarrow> ('o, unit) io" where
  "downloadBundleUri_try rt env uri version option =
     io_bind (downloadBundleFile env uri (case option of None \<Rightarrow> None | Some opt \<Rightarrow> headers opt))
       (\<lambda>path.
         if path = [] then installFail rt option (JString (''Cannot download bundle file: '' @ path))
         else
           io_bind
             (setupBundlePath env path
                (case option of None \<Rightarrow> None | Some opt \<Rightarrow> extensionBundle opt))
             (\<lambda>success.
               if \<not> success then installFail rt option JUndefined
               else
                 io_bind
                   (case version of
                      None \<Rightarrow> io_return ()
                    | Some v \<Rightarrow>
                        if truthy_num v then detach (setCurrentVersion rt env v)
                        else io_return ())
                   (\<lambda>u1.
                 io_bind
                   (case option of
                      None \<Rightarrow> io_return ()
                    | Some opt \<Rightarrow>
                        if truthy (metadata opt)
                        then detach (setUpdateMetadata rt env (metadata opt))
                        else io_return ())
                   (\<lambda>u2.
                 io_bind
                   (case option of
                      None \<Rightarrow> io_return ()
                    | Some opt \<Rightarrow> callback (updateSuccess opt) UpdateSuccess)
                   (\<lambda>u3.
                 case option of
                   None \<Rightarrow> io_return ()
                 | Some opt \<Rightarrow>
                     if restartAfterInstall opt
                     then emit (SetTimeout
                       (case restartDelay opt of
                          None \<Rightarrow> Fin 300
                        | Some d \<Rightarrow> if truthy_num d then d else Fin 300))
                     else io_return ())))))"

definition downloadBundleUri_catch ::
  "'o runtime \<Rightarrow> 'o env \<Rightarrow> string \<Rightarrow> jsnum option \<Rightarrow> 'o UpdateOption option \<Rightarrow> ('o, unit) io" where
  "downloadBundleUri_catch rt env uri version option =
     io_catch (downloadBundleUri_try rt env uri version option)
       (\<lambda>e. installFail rt option e)"

definition downloadBundleUri ::
  "'o runtime \<Rightarrow> 'o env \<Rightarrow> string \<Rightarrow> jsnum option \<Rightarrow> 'o UpdateOption option \<Rightarrow> ('o, unit) io" where
  "downloadBundleUri rt env uri version option =
     (if uri = [] then installFail rt option (JString ''Please give a valid URL!'')
      else
        (case version of
           None \<Rightarrow> downloadBundleUri_catch rt env uri version option
         | Some v \<Rightarrow>
             if truthy_num v then
               io_bind (getVersionAsNumber rt env) (\<lambda>currentVersion.
                 if num_le v currentVersion then
                   installFail rt option
                     (JString
                       (''Please give a bigger version than the current version, the current version now has setted by: ''
                        @ NumberToString rt currentVersion))
                 else downloadBundleUri_catch rt env uri version option)
             else downloadBundleUri_catch rt env uri version option))"


section \<open>The git flow\<close>

text \<open>\<open>UpdateGitOption\<close> (declared in \<open>./type\<close>), by the fields the code reads.\<close>

record 'o UpdateGitOption =
  url :: string
  bundlePath :: string
  branch :: "string option"
  folderName :: "string option"
  onProgress :: "'o cb"
  git_restartAfterInstall :: bool
  onPullSuccess :: "'o cb"
  onPullFailed :: "'o cb"
  onCloneSuccess :: "'o cb"
  onCloneFailed :: "'o cb"
  onFinishProgress :: "'o cb"

text \<open>
  \<open>Promise.all\<close> of two calls: both are issued, and the join rejects as soon as one of
  them does. When both reject, the join carries the rejection that settled first:
  \<open>first\<close> says that the first promise settles before the second.
\<close>

definition promise_all :: "bool \<Rightarrow> ('o, 'a) io \<Rightarrow> ('o, 'b) io \<Rightarrow> ('o, 'a \<times> 'b) io" where
  "promise_all first m1 m2 =
     (fst m1 @ fst m2,
      case snd m1 of
        Inl e1 \<Rightarrow> (case snd m2 of Inl e2 \<Rightarrow> Inl (if first then e1 else e2) | Inr b \<Rightarrow> Inl e1)
      | Inr a \<Rightarrow> (case snd m2 of Inl e2 \<Rightarrow> Inl e2 | Inr b \<Rightarrow> Inr (a, b)))"

text \<open>The pull branch (lines 175 to 189), for the branch name \<open>b\<close> that was resolved.\<close>

definition git_pull_branch :: "'o env \<Rightarrow> 'o UpdateGitOption \<Rightarrow> string \<Rightarrow> ('o, unit) io" where
  "git_pull_branch env options b =
     io_bind
       (call (GitPull b (folderName options)) (git_pullUpdate env b (folderName options)))
       (\<lambda>pull.
         if pull_success pull then
           io_bind (callback (onPullSuccess options) OnPullSuccess) (\<lambda>u.
             if git_restartAfterInstall options then emit (SetTimeout (Fin 300))
             else io_return ())
         else callback (onPullFailed options) (OnPullFailed (pull_msg pull)))"

text \<open>The clone branch (lines 191 to 208).\<close>

definition git_clone_branch :: "'o env \<Rightarrow> 'o UpdateGitOption \<Rightarrow> ('o, unit) io" where
  "git_clone_branch env options =
     io_bind
       (call (GitClone (url options) (branch options) (bundlePath options) (folderName options))
          (git_cloneRepo env (url options) (branch options) (bundlePath options)
             (folderName options)))
       (\<lambda>clone.
         case clone_bundle clone of
           None \<Rightarrow> callback (onCloneFailed options) (OnCloneFailed (clone_msg clone))
         | Some bundle \<Rightarrow>
             if clone_success clone \<and> bundle \<noteq> [] then
               io_bind (setupExactBundlePath env bundle) (\<lambda>ok.
               io_bind (callback (onCloneSuccess options) OnCloneSuccess) (\<lambda>u.
                 if git_restartAfterInstall options then emit (SetTimeout (Fin 300))
                 else io_return ()))
             else callback (onCloneFailed options) (OnCloneFailed (clone_msg clone)))"

text \<open>The statements inside \<open>try\<close> (lines 167 to 209).\<close>

definition checkForGitUpdate_try :: "'o env \<Rightarrow> 'o UpdateGitOption \<Rightarrow> ('o, unit) io" where
  "checkForGitUpdate_try env options =
     (if url options = [] \<or> bundlePath options = []
      then ([], Inl (JObject (JSError ''url or bundlePath should not be null'')))
      else
        io_bind
          (promise_all (git_getConfig_settles_first env) (call GitGetConfig (git_getConfig env))
             (call GitGetBranchName (git_getBranchName env)))
          (\<lambda>(config, branchName).
            case branchName of
              None \<Rightarrow> git_clone_branch env options
            | Some b \<Rightarrow>
                if b \<noteq> [] \<and> config \<noteq> None then git_pull_branch env options b
                else git_clone_branch env options))"

definition checkForGitUpdate :: "'o runtime \<Rightarrow> 'o env \<Rightarrow> 'o UpdateGitOption \<Rightarrow> ('o, unit) io" where
  "checkForGitUpdate rt env options =
     io_finally
       (io_catch (checkForGitUpdate_try env options)
          (\<lambda>e.
             if onCloneFailed options = Absent then io_return ()
             else io_bind ([], toString rt e) (\<lambda>message.
                    callback (onCloneFailed options) (OnCloneFailed (Some message)))))
       (callback (onFinishProgress options) OnFinishProgress)"


section \<open>Reading a trace\<close>

fun is_version_write :: "'o event \<Rightarrow> bool" where
  "is_version_write (SetCurrentVersion s) = True"
| "is_version_write ev = False"

fun is_metadata_write :: "'o event \<Rightarrow> bool" where
  "is_metadata_write (SetUpdateMetadata s) = True"
| "is_metadata_write ev = False"

fun is_restart_timer :: "'o event \<Rightarrow> bool" where
  "is_restart_timer (SetTimeout d) = True"
| "is_restart_timer ev = False"

fun is_updateFail :: "'o event \<Rightarrow> bool" where
  "is_updateFail (UpdateFail d) = True"
| "is_updateFail ev = False"

text \<open>The two events of \<open>installFail\<close>.\<close>

fun is_report :: "'o event \<Rightarrow> bool" where
  "is_report (UpdateFail d) = True"
| "is_report (ConsoleError d) = True"
| "is_report ev = False"

fun is_transport :: "'o event \<Rightarrow> bool" where
  "is_transport (Fetch uri hdrs) = True"
| "is_transport ev = False"

fun is_activation :: "'o event \<Rightarrow> bool" where
  "is_activation (SetupBundlePath path extension) = True"
| "is_activation (SetExactBundlePath path) = True"
| "is_activation ev = False"

fun is_pull :: "'o event \<Rightarrow> bool" where
  "is_pull (GitPull b folder) = True"
| "is_pull ev = False"

fun is_clone :: "'o event \<Rightarrow> bool" where
  "is_clone (GitClone u b p folder) = True"
| "is_clone ev = False"

text \<open>The four outcome callbacks of the git flow.\<close>

fun is_git_outcome :: "'o event \<Rightarrow> bool" where
  "is_git_outcome OnPullSuccess = True"
| "is_git_outcome (OnPullFailed m) = True"
| "is_git_outcome OnCloneSuccess = True"
| "is_git_outcome (OnCloneFailed m) = True"
| "is_git_outcome ev = False"


text \<open>
  The options as the code reads them through \<open>option?.field\<close>, and the message of a
  rejected version.
\<close>

abbreviation option_headers :: "'o UpdateOption option \<Rightarrow> 'o option" where
  "option_headers option \<equiv> (case option of None \<Rightarrow> None | Some opt \<Rightarrow> headers opt)"

abbreviation option_extension :: "'o UpdateOption option \<Rightarrow> string option" where
  "option_extension option \<equiv> (case option of None \<Rightarrow> None | Some opt \<Rightarrow> extensionBundle opt)"

abbreviation option_updateFail :: "'o UpdateOption option \<Rightarrow> 'o cb" where
  "option_updateFail option \<equiv> (case option of None \<Rightarrow> Absent | Some opt \<Rightarrow> updateFail opt)"

abbreviation option_updateSuccess :: "'o UpdateOption option \<Rightarrow> 'o cb" where
  "option_updateSuccess option \<equiv> (case option of None \<Rightarrow> Absent | Some opt \<Rightarrow> updateSuccess opt)"

abbreviation version_message :: "'o runtime \<Rightarrow> jsnum \<Rightarrow> 'o jsval" where
  "version_message rt currentVersion \<equiv>
     JString (''Please give a bigger version than the current version, the current version now has setted by: ''
              @ NumberToString rt currentVersion)"

text \<open>
  What a successful activation is followed by, piece by piece (lines 148 to 160): the
  version write, the metadata write, the success callback and, unless that callback
  throws, the restart timer.
\<close>

definition version_write :: "'o runtime \<Rightarrow> jsnum option \<Rightarrow> 'o event list" where
  "version_write rt version =
     (case version of
        None \<Rightarrow> []
      | Some v \<Rightarrow> if truthy_num v then [SetCurrentVersion (NumberToString rt v)] else [])"

definition metadata_write :: "'o runtime \<Rightarrow> 'o UpdateOption option \<Rightarrow> 'o event list" where
  "metadata_write rt option =
     (case option of
        None \<Rightarrow> []
      | Some opt \<Rightarrow>
          if truthy (metadata opt)
          then (case JSON_stringify rt (metadata opt) of
                  Inl e \<Rightarrow> []
                | Inr ms \<Rightarrow> [SetUpdateMetadata ms])
          else [])"

definition success_callback :: "'o UpdateOption option \<Rightarrow> 'o event list" where
  "success_callback option =
     (if option_updateSuccess option = Absent then [] else [UpdateSuccess])"

definition restart_timer :: "'o UpdateOption option \<Rightarrow> 'o event list" where
  "restart_timer option =
     (case option of
        None \<Rightarrow> []
      | Some opt \<Rightarrow>
          if restartAfterInstall opt
          then [SetTimeout
            (case restartDelay opt of
               None \<Rightarrow> Fin 300
             | Some d \<Rightarrow> if truthy_num d then d else Fin 300)]
          else [])"

definition success_effects ::
  "'o runtime \<Rightarrow> jsnum option \<Rightarrow> 'o UpdateOption option \<Rightarrow> 'o event list" where
  "success_effects rt version option =
     version_write rt version @ metadata_write rt option @ success_callback option
       @ (case option_updateSuccess option of Throws e \<Rightarrow> [] | _ \<Rightarrow> restart_timer option)"

text \<open>
  How the run ends after a successful activation, and what the \<open>catch\<close> block adds to a
  \<open>try\<close> block that ended with \<open>res\<close>: nothing after a normal end, \<open>installFail\<close> on
  the thrown object otherwise.
\<close>

definition success_result :: "'o UpdateOption option \<Rightarrow> 'o jsval + unit" where
  "success_result option =
     (case option_updateSuccess option of Throws e \<Rightarrow> Inl e | _ \<Rightarrow> Inr ())"

definition recover :: "'o runtime \<Rightarrow> 'o UpdateOption option \<Rightarrow> 'o jsval + unit \<Rightarrow> ('o, unit) io" where
  "recover rt option res =
     (case res of Inl e \<Rightarrow> installFail rt option e | Inr u \<Rightarrow> ([], Inr ()))"







section \<open>JSON texts\<close>

text \<open>
  The theorems about the flows hold for every runtime. The metadata round trip is a
  property of \<open>JSON.stringify\<close> and \<open>JSON.parse\<close> themselves, so this section gives them
  on JSON values: \<open>null\<close>, booleans, numbers, strings, arrays and records (a record is the
  list of its properties, in enumeration order). Numbers are integers, as everywhere in
  the model, and a character is one of the 256 code units of Isabelle's \<open>char\<close>.
\<close>

datatype json =
    JsonNull
  | JsonBool bool
  | JsonNumber int
  | JsonString string
  | JsonArray "json list"
  | JsonObject "(string \<times> json) list"

text \<open>Decimal digits, for \<open>n + ''\<close> and for number literals.\<close>

definition digit_char :: "nat \<Rightarrow> char" where
  "digit_char d = char_of (48 + d)"

definition is_digit :: "char \<Rightarrow> bool" where
  "is_digit c = (48 \<le> (of_char c :: nat) \<and> (of_char c :: nat) \<le> 57)"

definition digit_value :: "char \<Rightarrow> nat" where
  "digit_value c = of_char c - 48"

fun dec_digits :: "nat \<Rightarrow> string" where
  "dec_digits n =
     (if n < 10 then [digit_char n]
      else dec_digits (n div 10) @ [digit_char (n mod 10)])"

declare dec_digits.simps [simp del]

definition dec_value :: "string \<Rightarrow> nat" where
  "dec_value ds = foldl (\<lambda>a c. 10 * a + digit_value c) 0 ds"

definition dec_int :: "int \<Rightarrow> string" where
  "dec_int i = (if i < 0 then CHR ''-'' # dec_digits (nat (- i)) else dec_digits (nat i))"

text \<open>
  \<open>JSON.stringify\<close> of a string: the quote, the backslash and the control characters
  are escaped (the short escapes where JSON has them, \<open>\u00XX\<close> with lower-case digits
  otherwise); every other character stands for itself.
\<close>

definition hex_digit :: "nat \<Rightarrow> char" where
  "hex_digit d = (if d < 10 then char_of (48 + d) else char_of (87 + d))"

definition hex_value :: "char \<Rightarrow> nat option" where
  "hex_value c =
     (let n = of_char c :: nat in
      if 48 \<le> n \<and> n \<le> 57 then Some (n - 48)
      else if 97 \<le> n \<and> n \<le> 102 then Some (n - 87)
      else if 65 \<le> n \<and> n \<le> 70 then Some (n - 55)
      else None)"

definition is_control :: "char \<Rightarrow> bool" where
  "is_control c = ((of_char c :: nat) < 32)"

definition escape_char :: "char \<Rightarrow> string" where
  "escape_char c =
     (if c = CHR 0x22 then [CHR 0x5C, CHR 0x22]
      else if c = CHR 0x5C then [CHR 0x5C, CHR 0x5C]
      else if c = CHR 0x08 then [CHR 0x5C, CHR ''b'']
      else if c = CHR 0x0C then [CHR 0x5C, CHR ''f'']
      else if c = CHR 0x0A then [CHR 0x5C, CHR ''n'']
      else if c = CHR 0x0D then [CHR 0x5C, CHR ''r'']
      else if c = CHR 0x09 then [CHR 0x5C, CHR ''t'']
      else if is_control c then
        [CHR 0x5C, CHR ''u'', CHR ''0'', CHR ''0'',
         hex_digit (of_char c div 16), hex_digit (of_char c mod 16)]
      else [c])"

definition quote_string :: "string \<Rightarrow> string" where
  "quote_string s = CHR 0x22 # concat (map escape_char s) @ [CHR 0x22]"

text \<open>
  \<open>JSON.stringify\<close> of a JSON value, without indentation: array elements and record
  properties are separated by commas, a property is its quoted key, a colon and its
  value.
\<close>

fun join_commas :: "string list \<Rightarrow> string" where
  "join_commas [] = []"
| "join_commas [x] = x"
| "join_commas (x # y # ys) = x @ CHR '','' # join_commas (y # ys)"

primrec print_json :: "json \<Rightarrow> string" where
  "print_json JsonNull = ''null''"
| "print_json (JsonBool b) = (if b then ''true'' else ''false'')"
| "print_json (JsonNumber i) = dec_int i"
| "print_json (JsonString s) = quote_string s"
| "print_json (JsonArray xs) = CHR ''['' # join_commas (map print_json xs) @ '']''"
| "print_json (JsonObject kvs) =
     CHR ''{'' # join_commas (map (\<lambda>(k, text). quote_string k @ CHR '':'' # text)
                                 (map (map_prod id print_json) kvs)) @ ''}''"

text \<open>
  \<open>JSON.parse\<close>. A string literal: up to the closing quote, with the escapes of JSON; a
  raw control character is refused. An escape \<open>\uXXXX\<close> above \<open>\u00FF\<close> has no character in
  the model and is not read.
\<close>

definition unescape :: "char \<Rightarrow> char option" where
  "unescape e =
     (if e = CHR 0x22 then Some (CHR 0x22)
      else if e = CHR 0x5C then Some (CHR 0x5C)
      else if e = CHR ''/'' then Some (CHR ''/'')
      else if e = CHR ''b'' then Some (CHR 0x08)
      else if e = CHR ''f'' then Some (CHR 0x0C)
      else if e = CHR ''n'' then Some (CHR 0x0A)
      else if e = CHR ''r'' then Some (CHR 0x0D)
      else if e = CHR ''t'' then Some (CHR 0x09)
      else None)"

definition unicode_escape :: "string \<Rightarrow> char option" where
  "unicode_escape hs =
     (if length hs = 4 \<and> list_all (\<lambda>h. hex_value h \<noteq> None) hs then
        (let v = foldl (\<lambda>a h. 16 * a + the (hex_value h)) 0 hs in
         if v < 256 then Some (char_of v) else None)
      else None)"

fun parse_chars :: "string \<Rightarrow> (string \<times> string) option" where
  "parse_chars [] = None"
| "parse_chars (c # cs) =
     (if c = CHR 0x22 then Some ([], cs)
      else if c = CHR 0x5C then
        (case cs of
           [] \<Rightarrow> None
         | e # cs' \<Rightarrow>
             if e = CHR ''u'' then
               (case unicode_escape (take 4 cs') of
                  None \<Rightarrow> None
                | Some ch \<Rightarrow>
                    (case parse_chars (drop 4 cs') of
                       None \<Rightarrow> None
                     | Some (str, r) \<Rightarrow> Some (ch # str, r)))
             else
               (case unescape e of
                  None \<Rightarrow> None
                | Some ch \<Rightarrow>
                    (case parse_chars cs' of
                       None \<Rightarrow> None
                     | Some (str, r) \<Rightarrow> Some (ch # str, r))))
      else if is_control c then None
      else (case parse_chars cs of None \<Rightarrow> None | Some (str, r) \<Rightarrow> Some (c # str, r)))"

declare parse_chars.simps(2) [simp del]

text \<open>
  Whitespace between tokens, literals, and numbers. A number is an optional minus sign,
  decimal digits without a leading zero, an optional fraction and an optional exponent.
  Its value is the digits of the integer part and of the fraction, scaled by the power
  of ten that the exponent and the length of the fraction give. The model's numbers are
  integers: a literal whose value is not an integer has no value here and is not read.
\<close>

definition is_ws :: "char \<Rightarrow> bool" where
  "is_ws c = (c = CHR 0x20 \<or> c = CHR 0x09 \<or> c = CHR 0x0A \<or> c = CHR 0x0D)"

definition skip_ws :: "string \<Rightarrow> string" where
  "skip_ws s = dropWhile is_ws s"

definition parse_literal :: "string \<Rightarrow> json \<Rightarrow> string \<Rightarrow> (json \<times> string) option" where
  "parse_literal w v s = (if take (length w) s = w then Some (v, drop (length w) s) else None)"

definition read_fraction :: "string \<Rightarrow> (string \<times> string) option" where
  "read_fraction r =
     (case r of
        [] \<Rightarrow> Some ([], r)
      | c # cs \<Rightarrow>
          if c = CHR ''.'' then
            (if takeWhile is_digit cs = [] then None
             else Some (takeWhile is_digit cs, dropWhile is_digit cs))
          else Some ([], r))"

definition read_exponent :: "string \<Rightarrow> (int \<times> string) option" where
  "read_exponent r =
     (case r of
        [] \<Rightarrow> Some (0, r)
      | c # cs \<Rightarrow>
          if c = CHR ''e'' \<or> c = CHR ''E'' then
            (let negative = (cs \<noteq> [] \<and> hd cs = CHR ''-'');
                 t = (if cs \<noteq> [] \<and> (hd cs = CHR ''-'' \<or> hd cs = CHR ''+'') then tl cs else cs);
                 es = takeWhile is_digit t
             in if es = [] then None
                else Some (if negative then - int (dec_value es) else int (dec_value es),
                           dropWhile is_digit t))
          else Some (0, r))"

definition scaled :: "nat \<Rightarrow> int \<Rightarrow> int option" where
  "scaled m k =
     (if 0 \<le> k then Some (int m * 10 ^ nat k)
      else if int m mod 10 ^ nat (- k) = 0 then Some (int m div 10 ^ nat (- k))
      else None)"

definition parse_digits :: "bool \<Rightarrow> string \<Rightarrow> (json \<times> string) option" where
  "parse_digits negative t =
     (let ds = takeWhile is_digit t in
      if ds = [] \<or> (hd ds = CHR ''0'' \<and> length ds \<noteq> 1) then None
      else
        (case read_fraction (dropWhile is_digit t) of
           None \<Rightarrow> None
         | Some (fs, r) \<Rightarrow>
             (case read_exponent r of
                None \<Rightarrow> None
              | Some (e, rest) \<Rightarrow>
                  (case scaled (dec_value (ds @ fs)) (e - int (length fs)) of
                     None \<Rightarrow> None
                   | Some v \<Rightarrow> Some (JsonNumber (if negative then - v else v), rest)))))"

definition parse_number :: "string \<Rightarrow> (json \<times> string) option" where
  "parse_number s =
     (case s of
        [] \<Rightarrow> None
      | c # cs \<Rightarrow> if c = CHR ''-'' then parse_digits True cs else parse_digits False (c # cs))"

text \<open>
  A record built from the parsed properties: a key that occurs again keeps its place and
  takes the later value.
\<close>

definition record_of :: "(string \<times> json) list \<Rightarrow> (string \<times> json) list" where
  "record_of kvs =
     foldl (\<lambda>acc (k, v). if k \<in> fst ` set acc then map (\<lambda>(k', v'). if k' = k then (k, v) else (k', v')) acc
                          else acc @ [(k, v)]) [] kvs"

text \<open>
  Values, array elements after \<open>[\<close> and record properties after \<open>{\<close>. Each function
  returns what it read and the rest of the text. A recursive call on the rest of an
  earlier call is made when that rest is shorter than the text, which it always is; the
  test makes the recursion well-founded on the length of the text.
\<close>

function parse_value :: "string \<Rightarrow> (json \<times> string) option"
  and parse_elements :: "string \<Rightarrow> (json list \<times> string) option"
  and parse_members :: "string \<Rightarrow> ((string \<times> json) list \<times> string) option"
where
  "parse_value s =
     (case skip_ws s of
        [] \<Rightarrow> None
      | c # cs \<Rightarrow>
          if c = CHR ''n'' then parse_literal ''null'' JsonNull (c # cs)
          else if c = CHR ''t'' then parse_literal ''true'' (JsonBool True) (c # cs)
          else if c = CHR ''f'' then parse_literal ''false'' (JsonBool False) (c # cs)
          else if c = CHR 0x22 then
            (case parse_chars cs of None \<Rightarrow> None | Some (str, r) \<Rightarrow> Some (JsonString str, r))
          else if c = CHR ''['' then
            (case skip_ws cs of
               [] \<Rightarrow> None
             | d # r \<Rightarrow>
                 if d = CHR '']'' then Some (JsonArray [], r)
                 else (case parse_elements cs of
                         None \<Rightarrow> None
                       | Some (xs, r') \<Rightarrow> Some (JsonArray xs, r')))
          else if c = CHR ''{'' then
            (case skip_ws cs of
               [] \<Rightarrow> None
             | d # r \<Rightarrow>
                 if d = CHR ''}'' then Some (JsonObject [], r)
                 else (case parse_members cs of
                         None \<Rightarrow> None
                       | Some (kvs, r') \<Rightarrow> Some (JsonObject (record_of kvs), r')))
          else parse_number (c # cs))"
| "parse_elements s =
     (case parse_value s of
        None \<Rightarrow> None
      | Some (v, r) \<Rightarrow>
          (case skip_ws r of
             [] \<Rightarrow> None
           | c # r' \<Rightarrow>
               if c = CHR '']'' then Some ([v], r')
               else if c = CHR '','' \<and> length r' < length s then
                 (case parse_elements r' of
                    None \<Rightarrow> None
                  | Some (vs, r'') \<Rightarrow> Some (v # vs, r''))
               else None))"
| "parse_members s =
     (case skip_ws s of
        [] \<Rightarrow> None
      | q # cs \<Rightarrow>
          if q \<noteq> CHR 0x22 then None
          else
            (case parse_chars cs of
               None \<Rightarrow> None
             | Some (k, r) \<Rightarrow>
                 (case skip_ws r of
                    [] \<Rightarrow> None
                  | colon # r1 \<Rightarrow>
                      if colon = CHR '':'' \<and> length r1 < length s then
                        (case parse_value r1 of
                           None \<Rightarrow> None
                         | Some (v, r2) \<Rightarrow>
                             (case skip_ws r2 of
                                [] \<Rightarrow> None
                              | c # r3 \<Rightarrow>
                                  if c = CHR ''}'' then Some ([(k, v)], r3)
                                  else if c = CHR '','' \<and> length r3 < length s then
                                    (case parse_members r3 of
                                       None \<Rightarrow> None
                                     | Some (kvs, r4) \<Rightarrow> Some ((k, v) # kvs, r4))
                                  else None))
                      else None)))"
  by pat_completeness auto

termination
proof -
  have shrink: "length cs < length s" if "skip_ws s = c # cs" for s cs and c :: char
    using length_dropWhile_le [of is_ws s] that by (simp add: skip_ws_def)
  show ?thesis
    by (relation "inv_image (less_than <*lex*> less_than)
           (\<lambda>x. case x of
                   Inl s \<Rightarrow> (length s, 0::nat)
                 | Inr (Inl s) \<Rightarrow> (length s, 1)
                 | Inr (Inr s) \<Rightarrow> (length s, 1))")
       (auto dest: shrink)
qed

declare parse_value.simps [simp del] parse_elements.simps [simp del] parse_members.simps [simp del]

text \<open>The whole text is one value, with whitespace around it.\<close>

definition parse_json :: "string \<Rightarrow> json option" where
  "parse_json s =
     (case parse_value s of
        None \<Rightarrow> None
      | Some (j, rest) \<Rightarrow> if skip_ws rest = [] then Some j else None)"


primrec wf_json :: "json \<Rightarrow> bool" where
  "wf_json JsonNull = True"
| "wf_json (JsonBool b) = True"
| "wf_json (JsonNumber i) = True"
| "wf_json (JsonString s) = True"
| "wf_json (JsonArray xs) = list_all id (map wf_json xs)"
| "wf_json (JsonObject kvs) =
     (distinct (map fst kvs) \<and> list_all snd (map (map_prod id wf_json) kvs))"


section \<open>A runtime and an environment for closed examples\<close>

text \<open>
  The theorems about the flows hold for every runtime and environment. \<open>sample_rt\<close> is the
  runtime on which the code is evaluated on concrete inputs; its \<open>JSON.stringify\<close> and
  \<open>JSON.parse\<close> are the functions of the section above. Its opaque objects are the
  structured JSON values (arrays and records), an object that \<open>JSON.stringify\<close> refuses,
  and the errors that the engine itself throws (\<open>TypeError\<close>, \<open>SyntaxError\<close>), by name
  and message. \<open>PlainObject\<close> is \<open>{}\<close>.
\<close>

datatype sample_obj = JsonValue json | CircularObject | EngineError string string

abbreviation PlainObject :: sample_obj where
  "PlainObject \<equiv> JsonValue (JsonObject [])"

text \<open>A JSON value as a value of the program: arrays and records are objects.\<close>

fun of_json :: "json \<Rightarrow> sample_obj jsval" where
  "of_json JsonNull = JNull"
| "of_json (JsonBool b) = JBool b"
| "of_json (JsonNumber i) = JNumber (Fin i)"
| "of_json (JsonString s) = JString s"
| "of_json (JsonArray xs) = JObject (Opaque (JsonValue (JsonArray xs)))"
| "of_json (JsonObject kvs) = JObject (Opaque (JsonValue (JsonObject kvs)))"

definition dec_NumberToString :: "jsnum \<Rightarrow> string" where
  "dec_NumberToString x = (case x of NaN \<Rightarrow> ''NaN'' | Fin i \<Rightarrow> dec_int i)"

text \<open>
  \<open>+s\<close> on a string: whitespace around the text is dropped, the empty text is \<open>0\<close>, a
  decimal integer with an optional sign is its value, and any other text is \<open>NaN\<close> (the
  other numeric literals of JavaScript are outside the model's numbers).
\<close>

definition is_space :: "char \<Rightarrow> bool" where
  "is_space c = (is_ws c \<or> c = CHR 0x0B \<or> c = CHR 0x0C \<or> c = CHR 0xA0)"

definition dec_ToNumber :: "string \<Rightarrow> jsnum" where
  "dec_ToNumber s =
     (case rev (dropWhile is_space (rev (dropWhile is_space s))) of
        [] \<Rightarrow> Fin 0
      | c # cs \<Rightarrow>
          if c = CHR ''-'' then
            (if cs \<noteq> [] \<and> list_all is_digit cs then Fin (- int (dec_value cs)) else NaN)
          else if c = CHR ''+'' then
            (if cs \<noteq> [] \<and> list_all is_digit cs then Fin (int (dec_value cs)) else NaN)
          else if list_all is_digit (c # cs) then Fin (int (dec_value (c # cs)))
          else NaN)"

text \<open>
  \<open>toString()\<close> of an array joins the texts of its elements with commas, \<open>null\<close> giving
  the empty text; a record gives \<open>[object Object]\<close>.
\<close>

primrec json_text :: "json \<Rightarrow> string" where
  "json_text JsonNull = ''null''"
| "json_text (JsonBool b) = (if b then ''true'' else ''false'')"
| "json_text (JsonNumber i) = dec_int i"
| "json_text (JsonString s) = s"
| "json_text (JsonArray xs) =
     join_commas (map2 (\<lambda>x text. if x = JsonNull then [] else text) xs (map json_text xs))"
| "json_text (JsonObject kvs) = ''[object Object]''"

definition sample_rt :: "sample_obj runtime" where
  "sample_rt =
     \<lparr>ToNumber = dec_ToNumber,
      NumberToString = dec_NumberToString,
      QuoteJSONString = quote_string,
      SerializeJSONObject =
        (\<lambda>ob. case ob of
           JsonValue j \<Rightarrow> Inr (Some (print_json j))
         | CircularObject \<Rightarrow>
             Inl (JObject (Opaque (EngineError ''TypeError'' ''Converting circular structure to JSON'')))
         | EngineError name message \<Rightarrow> Inr (Some ''{}'')),
      ObjectToString =
        (\<lambda>ob. case ob of
           JsonValue j \<Rightarrow> Inr (json_text j)
         | CircularObject \<Rightarrow> Inr ''[object Object]''
         | EngineError name message \<Rightarrow> Inr (name @ '': '' @ message)),
      JSON_parse =
        (\<lambda>s. case parse_json s of
           None \<Rightarrow> Inl (JObject (Opaque (EngineError ''SyntaxError'' ''Unexpected token in JSON'')))
         | Some j \<Rightarrow> Inr (of_json j)),
      PropertyOfNullish =
        (\<lambda>v. JObject (Opaque (EngineError ''TypeError'' ''Cannot read properties of undefined or null'')))\<rparr>"

text \<open>
  \<open>sample_env\<close>: the stored version is \<open>3\<close>, no metadata is stored, the download resolves
  to \<open>/tmp/b.zip\<close>, every native call succeeds, git has a configuration and is on \<open>main\<close>,
  pull and clone succeed.
\<close>

definition sample_env :: "sample_obj env" where
  "sample_env =
     \<lparr>RN_getCurrentVersion = Inr ''3'',
      RN_setCurrentVersion = (\<lambda>s. Inr True),
      RN_getUpdateMetadata = Inr None,
      RN_setUpdateMetadata = (\<lambda>s. Inr True),
      RN_setupBundlePath = (\<lambda>path extension. Inr True),
      RN_setExactBundlePath = (\<lambda>path. Inr True),
      RN_deleteBundle = Inr True,
      DM_fetch = (\<lambda>uri hdrs. Inr ''/tmp/b.zip''),
      git_getConfig = Inr (Some PlainObject),
      git_getBranchName = Inr (Some ''main''),
      git_getConfig_settles_first = True,
      git_pullUpdate = (\<lambda>b folder. Inr \<lparr>pull_success = True, pull_msg = None\<rparr>),
      git_cloneRepo = (\<lambda>u b p folder.
        Inr \<lparr>clone_success = True, clone_msg = None, clone_bundle = Some p\<rparr>)\<rparr>"

definition sample_option :: "sample_obj UpdateOption" where
  "sample_option =
     \<lparr>headers = None,
      progress = Absent,
      extensionBundle = None,
      metadata = JUndefined,
      updateSuccess = Returns,
      updateFail = Returns,
      restartAfterInstall = False,
      restartDelay = None\<rparr>"

definition sample_git_option :: "sample_obj UpdateGitOption" where
  "sample_git_option =
     \<lparr>url = ''https://host/repo.git'',
      bundlePath = ''output/main.jsbundle'',
      branch = None,
      folderName = None,
      onProgress = Absent,
      git_restartAfterInstall = False,
      onPullSuccess = Returns,
      onPullFailed = Returns,
      onCloneSuccess = Returns,
      onCloneFailed = Returns,
      onFinishProgress = Returns\<rparr>"


definition refusing_env :: "sample_obj env" where
  "refusing_env = sample_env\<lparr>RN_setupBundlePath := (\<lambda>path extension. Inr False)\<rparr>"



definition metadata_option :: "sample_obj UpdateOption" where
  "metadata_option = sample_option\<lparr>metadata := JObject (Opaque PlainObject)\<rparr>"

definition falsy_metadata_option :: "sample_obj UpdateOption" where
  "falsy_metadata_option = sample_option\<lparr>metadata := JBool False\<rparr>"

definition restart_now_option :: "sample_obj UpdateOption" where
  "restart_now_option = sample_option\<lparr>restartAfterInstall := True, restartDelay := Some (Fin 0)\<rparr>"

definition nan_delay_option :: "sample_obj UpdateOption" where
  "nan_delay_option = sample_option\<lparr>restartAfterInstall := True, restartDelay := Some NaN\<rparr>"




definition no_config_env :: "sample_obj env" where
  "no_config_env = sample_env\<lparr>git_getConfig := Inr None\<rparr>"


definition restart_later_option :: "sample_obj UpdateOption" where
  "restart_later_option = sample_option\<lparr>restartAfterInstall := True, restartDelay := Some (Fin 50)\<rparr>"


definition throwing_fail_option :: "sample_obj UpdateOption" where
  "throwing_fail_option = sample_option\<lparr>updateFail := Throws (JObject (JSError ''callback failed''))\<rparr>"


definition throwing_pull_success_option :: "sample_obj UpdateGitOption" where
  "throwing_pull_success_option =
     sample_git_option\<lparr>onPullSuccess := Throws (JObject (JSError ''callback failed''))\<rparr>"


definition config_rejects_env :: "sample_obj env" where
  "config_rejects_env = sample_env\<lparr>git_getConfig := Inl (JString ''no repository'')\<rparr>"



definition exact_rejects_env :: "sample_obj env" where
  "exact_rejects_env =
     no_config_env\<lparr>RN_setExactBundlePath := (\<lambda>path. Inl (JObject (JSError ''not linked'')))\<rparr>"




section \<open>Unfolding the combinators\<close>

lemmas io_defs = io_return_def emit_def call_def io_bind_def io_catch_def io_finally_def
  detach_def callback_def promise_all_def

lemmas wrapper_defs = downloadBundleFile_def setupBundlePath_def setupExactBundlePath_def
  deleteBundlePath_def getCurrentVersion_def getVersionAsNumber_def setCurrentVersion_def
  setUpdateMetadata_def

lemma sample_numbers:
  "dec_ToNumber ''3'' = Fin 3"
  "dec_NumberToString (Fin 3) = ''3''"
  "dec_NumberToString (Fin 5) = ''5''"
  "dec_NumberToString (Fin 0) = ''0''"
  by code_simp+

lemma callback_eq:
  "callback f ev = ((if f = Absent then [] else [ev]), cb_result f)"
  by (cases f) (simp_all add: callback_def cb_result_def io_return_def emit_def)

lemma cb_result_cases:
  obtains "cb_result f = Inr ()" and "\<forall>e. f \<noteq> Throws e"
  | e where "cb_result f = Inl e" and "f = Throws e"
  by (cases f) (simp_all add: cb_result_def)

lemma cb_result_returns:
  "\<forall>e. f \<noteq> Throws e \<Longrightarrow> cb_result f = Inr ()"
  by (cases f) (simp_all add: cb_result_def)


section \<open>JSON texts, printed and parsed\<close>

text \<open>
  What \<open>parse_json\<close> reads back from the text of \<open>print_json\<close>: every well-formed JSON
  value is read back as it was printed.
\<close>


subsection \<open>Digits\<close>













subsection \<open>Strings\<close>






subsection \<open>Values\<close>

lemma skip_ws_Cons [simp]: "\<not> is_ws c \<Longrightarrow> skip_ws (c # cs) = c # cs"
  by (simp add: skip_ws_def)

lemma is_ws_simps [simp]:
  "\<not> is_ws (CHR ''n'')" "\<not> is_ws (CHR ''t'')" "\<not> is_ws (CHR ''f'')" "\<not> is_ws (CHR 0x22)"
  "\<not> is_ws (CHR ''['')" "\<not> is_ws (CHR ''{'')" "\<not> is_ws (CHR '']'')" "\<not> is_ws (CHR ''}'')"
  "\<not> is_ws (CHR '','')" "\<not> is_ws (CHR '':'')" "\<not> is_ws (CHR ''-'')"
  by (simp_all add: is_ws_def)



lemma wf_json_array: "wf_json (JsonArray xs) \<longleftrightarrow> (\<forall>x \<in> set xs. wf_json x)"
  by (simp add: list_all_iff)

lemma wf_json_object:
  "wf_json (JsonObject kvs) \<longleftrightarrow> distinct (map fst kvs) \<and> (\<forall>(k, v) \<in> set kvs. wf_json v)"
  by (auto simp add: list_all_iff)








subsection \<open>The tests on the lengths\<close>

text \<open>
  What a parser returns as the rest is shorter than its text. So the tests on the
  lengths in \<open>parse_elements\<close> and \<open>parse_members\<close> never fail, and the two functions
  satisfy the equations of the plain recursion.
\<close>

lemma parse_chars_shrinks:
  "parse_chars s = Some (str, r) \<Longrightarrow> length r < length s"
proof (induction s arbitrary: str r rule: length_induct)
  case (1 s)
  have IH: "length r' < length t" if "parse_chars t = Some (str', r')" "length t < length s"
    for t str' r'
    using 1(1) that by blast
  show ?case
  proof (cases s)
    case Nil
    with 1(2) show ?thesis by simp
  next
    case (Cons c cs)
    have less: "length (drop 4 t) < length s" if "cs = e # t" for e t
      using that Cons by simp
    from 1(2) show ?thesis
      unfolding Cons
      by (subst (asm) parse_chars.simps(2))
         (auto split: if_splits list.splits option.splits
            dest!: IH [OF _ less] IH [of cs, unfolded Cons] IH simp add: Cons)
  qed
qed

lemma read_fraction_le:
  "read_fraction r = Some (fs, r') \<Longrightarrow> length r' \<le> length r"
  using length_dropWhile_le [of is_digit "tl r"]
  by (cases r) (auto simp add: read_fraction_def split: if_splits)

lemma read_exponent_le:
  "read_exponent r = Some (e, r') \<Longrightarrow> length r' \<le> length r"
proof (cases r)
  case Nil
  then show "read_exponent r = Some (e, r') \<Longrightarrow> length r' \<le> length r"
    by (simp add: read_exponent_def)
next
  case (Cons c cs)
  assume a: "read_exponent r = Some (e, r')"
  have "length (dropWhile is_digit cs) \<le> length cs"
    and "length (dropWhile is_digit (tl cs)) \<le> length cs"
    using length_dropWhile_le [of is_digit cs] length_dropWhile_le [of is_digit "tl cs"]
    by simp_all
  with a Cons show "length r' \<le> length r"
    by (auto simp add: read_exponent_def Let_def split: if_splits)
qed

lemma parse_number_shrinks:
  assumes "parse_number s = Some (v, r)"
  shows "length r < length s"
proof -
  have d: "length r < length t" if "parse_digits negative t = Some (v, r)" for negative t
  proof -
    from that obtain fs r1 e where ds: "takeWhile is_digit t \<noteq> []"
      and f: "read_fraction (dropWhile is_digit t) = Some (fs, r1)"
      and x: "read_exponent r1 = Some (e, r)"
      by (auto simp add: parse_digits_def Let_def split: if_splits option.splits)
    have "length (takeWhile is_digit t) + length (dropWhile is_digit t) = length t"
      by (metis length_append takeWhile_dropWhile_id)
    with ds have "length (dropWhile is_digit t) < length t"
      by (cases "takeWhile is_digit t") auto
    with read_fraction_le [OF f] read_exponent_le [OF x] show ?thesis by simp
  qed
  from assms show ?thesis
    by (auto simp add: parse_number_def split: list.splits if_splits dest!: d)
qed

lemma parse_literal_shrinks:
  assumes "parse_literal w v s = Some (x, r)" and "w \<noteq> []"
  shows "length r < length s"
proof -
  from assms have "take (length w) s = w" and "r = drop (length w) s"
    by (auto simp add: parse_literal_def split: if_splits)
  with assms(2) show ?thesis by (cases s) auto
qed

lemma skip_ws_shrinks: "skip_ws s = c # cs \<Longrightarrow> length cs < length s"
  using length_dropWhile_le [of is_ws s] by (simp add: skip_ws_def)

lemma skip_ws_le: "length (skip_ws s) \<le> length s"
  by (simp add: skip_ws_def length_dropWhile_le)

lemma parse_shrinks:
  "(\<forall>v r. parse_value s = Some (v, r) \<longrightarrow> length r < length s) \<and>
   (\<forall>vs r. parse_elements s = Some (vs, r) \<longrightarrow> length r < length s) \<and>
   (\<forall>kvs r. parse_members s = Some (kvs, r) \<longrightarrow> length r < length s)"
proof (induction s rule: length_induct)
  case (1 s)
  have elems: "length r < length t" if "parse_elements t = Some (vs, r)" "length t < length s"
    for t vs r
    using 1 that by blast
  have membs: "length r < length t" if "parse_members t = Some (kvs, r)" "length t < length s"
    for t kvs r
    using 1 that by blast
  have vals: "length r < length t" if "parse_value t = Some (v, r)" "length t < length s"
    for t v r
    using 1 that by blast
  have v: "length r < length s" if "parse_value s = Some (v, r)" for v r
  proof (cases "skip_ws s")
    case Nil
    with that show ?thesis by (subst (asm) parse_value.simps) simp
  next
    case (Cons c cs)
    then have cs: "length cs < length s" by (rule skip_ws_shrinks)
    from Cons have le: "length (c # cs) \<le> length s" using skip_ws_le [of s] by simp
    have lit: "length r < length s"
      if "parse_literal w x (d # cs) = Some (v, r)" "w = ''null'' \<or> w = ''true'' \<or> w = ''false''"
      for w x d
    proof -
      from that(2) have "w \<noteq> []" by auto
      from parse_literal_shrinks [OF that(1) this] cs show ?thesis by simp
    qed
    have num: "length r < length s" if "parse_number (d # cs) = Some (v, r)" for d
      using parse_number_shrinks [OF that] cs by simp
    have str: "length r < length s" if "parse_chars cs = Some (x, r)" for x
      using parse_chars_shrinks [OF that] cs by simp
    have arr: "length r < length s" if "parse_elements cs = Some (x, r)" for x
      using elems [OF that cs] cs by simp
    have obj: "length r < length s" if "parse_members cs = Some (x, r)" for x
      using membs [OF that cs] cs by simp
    have empty: "length r < length s" if "skip_ws cs = d # r" for d
      using skip_ws_shrinks [OF that] cs by simp
    from that show ?thesis
      by (subst (asm) parse_value.simps)
         (auto simp add: Cons split: if_splits list.splits option.splits
            dest: lit [OF _ disjI1] lit [OF _ disjI2, OF _ disjI1] lit [OF _ disjI2, OF _ disjI2]
              num str arr obj empty)
  qed
  have e: "length r < length s" if "parse_elements s = Some (vs, r)" for vs r
  proof -
    from that obtain x r0 where x: "parse_value s = Some (x, r0)"
      by (subst (asm) parse_elements.simps) (auto split: option.splits)
    from v [OF x] have r0: "length r0 < length s" .
    have next_char: "length r' < length s" if "skip_ws r0 = c # r'" for c r'
      using skip_ws_shrinks [OF that] r0 by simp
    have more: "length r < length s" if "parse_elements r' = Some (ys, r)" "length r' < length s"
      for r' ys
      using elems [OF that] that(2) by simp
    from that show ?thesis
      by (subst (asm) parse_elements.simps)
         (auto simp add: x split: if_splits list.splits option.splits dest: next_char more)
  qed
  have m: "length r < length s" if "parse_members s = Some (kvs, r)" for kvs r
  proof -
    have value_after: "length r' < length s" if "parse_value t = Some (x, r')" "length t < length s"
      for t x r'
      using vals [OF that] that(2) by simp
    have next_char: "length r' < length s" if "skip_ws t = c # r'" "length t < length s" for c r' t
      using skip_ws_shrinks [OF that(1)] that(2) by simp
    have more: "length r < length s" if "parse_members r' = Some (ys, r)" "length r' < length s"
      for r' ys
      using membs [OF that] that(2) by simp
    from that show ?thesis
      by (subst (asm) parse_members.simps)
         (auto split: if_splits list.splits option.splits; meson value_after next_char more)
  qed
  from v e m show ?case by blast
qed

lemma parse_elements_unfold:
  "parse_elements s =
     (case parse_value s of
        None \<Rightarrow> None
      | Some (v, r) \<Rightarrow>
          (case skip_ws r of
             [] \<Rightarrow> None
           | c # r' \<Rightarrow>
               if c = CHR '']'' then Some ([v], r')
               else if c = CHR '','' then
                 (case parse_elements r' of
                    None \<Rightarrow> None
                  | Some (vs, r'') \<Rightarrow> Some (v # vs, r''))
               else None))"
proof (cases "parse_value s")
  case None
  then show ?thesis by (subst parse_elements.simps) simp
next
  case (Some a)
  obtain v r where a: "a = (v, r)" by (cases a)
  from Some a parse_shrinks [of s] have r: "length r < length s" by simp
  have "length r' < length s" if "skip_ws r = c # r'" for c r'
    using skip_ws_shrinks [OF that] r by simp
  with Some a show ?thesis
    by (subst parse_elements.simps) (auto split: list.splits)
qed

lemma parse_members_unfold:
  "parse_members s =
     (case skip_ws s of
        [] \<Rightarrow> None
      | q # cs \<Rightarrow>
          if q \<noteq> CHR 0x22 then None
          else
            (case parse_chars cs of
               None \<Rightarrow> None
             | Some (k, r) \<Rightarrow>
                 (case skip_ws r of
                    [] \<Rightarrow> None
                  | colon # r1 \<Rightarrow>
                      if colon = CHR '':'' then
                        (case parse_value r1 of
                           None \<Rightarrow> None
                         | Some (v, r2) \<Rightarrow>
                             (case skip_ws r2 of
                                [] \<Rightarrow> None
                              | c # r3 \<Rightarrow>
                                  if c = CHR ''}'' then Some ([(k, v)], r3)
                                  else if c = CHR '','' then
                                    (case parse_members r3 of
                                       None \<Rightarrow> None
                                     | Some (kvs, r4) \<Rightarrow> Some ((k, v) # kvs, r4))
                                  else None))
                      else None)))"
proof -
  have r1: "length r1 < length s"
    if "skip_ws s = q # cs" "parse_chars cs = Some (k, r)" "skip_ws r = colon # r1"
    for q cs k r colon r1
    using skip_ws_shrinks [OF that(1)] parse_chars_shrinks [OF that(2)] skip_ws_shrinks [OF that(3)]
    by simp
  have r3: "length r3 < length s"
    if "skip_ws s = q # cs" "parse_chars cs = Some (k, r)" "skip_ws r = colon # r1"
      "parse_value r1 = Some (v, r2)" "skip_ws r2 = c # r3"
    for q cs k r colon r1 v r2 c r3
    using r1 [OF that(1,2,3)] parse_shrinks [of r1] that(4) skip_ws_shrinks [OF that(5)]
    by fastforce
  show ?thesis
    by (subst parse_members.simps)
       (auto split: list.splits option.splits dest: r1 r3)
qed

subsection \<open>The sample runtime on JSON values\<close>





section \<open>removeBundle\<close>

text \<open>
  The whole behaviour of \<open>removeBundle\<close>: after the deletion call, the restart timer and
  the version reset are issued together, and only when the deletion resolved to \<open>true\<close>
  and \<open>restartAfterRemoved\<close> is \<open>true\<close>.
\<close>

lemma removeBundle_trace:
  "removeBundle rt env restartAfterRemoved =
     DeleteBundle #
       (if RN_deleteBundle env = Inr True \<and> restartAfterRemoved = Some True
        then [SetTimeout (Fin 300), SetCurrentVersion (NumberToString rt (Fin 0))]
        else [])"
  by (cases "RN_deleteBundle env") (auto simp: removeBundle_def io_defs wrapper_defs)

text \<open>
  C1. The claim: when the deletion reports success the stored version is reset to \<open>0\<close>
  whether or not \<open>restartAfter\<close> is set. The code resets the version inside the branch
  \<open>if (data && restartAfterRemoved)\<close>, so \<open>removeBundle(false)\<close> and \<open>removeBundle()\<close>
  with a successful deletion issue the deletion call and nothing else: no
  \<open>setCurrentVersion\<close>.
\<close>

theorem removeBundle_without_restart_keeps_version:
  "RN_deleteBundle sample_env = Inr True \<and>
   removeBundle sample_rt sample_env (Some False) = [DeleteBundle] \<and>
   removeBundle sample_rt sample_env None = [DeleteBundle]"
  by (simp add: removeBundle_trace sample_env_def)


section \<open>installFail\<close>

text \<open>
  \<open>installFail\<close> ends in one of four ways: \<open>JSON.stringify\<close> throws before anything is
  reported; no callback is supplied and only the log entry is written; the callback is
  called and returns, and the log entry follows; the callback is called and throws, and
  the log entry is not reached.
\<close>

lemma installFail_cases [case_names unserialisable silent delivered callback_threw]:
  obtains
    x where "JSON_stringify rt e = Inl x"
      and "installFail rt option e = ([], Inl x)"
  | d where "JSON_stringify rt e = Inr d" and "option_updateFail option = Absent"
      and "installFail rt option e = ([ConsoleError d], Inr ())"
  | d where "JSON_stringify rt e = Inr d" and "option_updateFail option = Returns"
      and "installFail rt option e = ([UpdateFail d, ConsoleError d], Inr ())"
  | d x where "JSON_stringify rt e = Inr d" and "option_updateFail option = Throws x"
      and "installFail rt option e = ([UpdateFail d], Inl x)"
proof (cases "JSON_stringify rt e")
  case (Inl x)
  then have "installFail rt option e = ([], Inl x)"
    by (cases option) (simp_all add: installFail_def io_defs)
  with Inl show ?thesis by (rule that(1))
next
  case (Inr d)
  show ?thesis
  proof (cases "option_updateFail option")
    case Absent
    with Inr have "installFail rt option e = ([ConsoleError d], Inr ())"
      by (cases option) (simp_all add: installFail_def io_defs)
    with Inr Absent show ?thesis by (rule that(2))
  next
    case Returns
    with Inr have "installFail rt option e = ([UpdateFail d, ConsoleError d], Inr ())"
      by (cases option) (simp_all add: installFail_def io_defs)
    with Inr Returns show ?thesis by (rule that(3))
  next
    case (Throws x)
    with Inr have "installFail rt option e = ([UpdateFail d], Inl x)"
      by (cases option) (simp_all add: installFail_def io_defs)
    with Inr Throws show ?thesis by (rule that(4))
  qed
qed

lemma installFail_only_reports:
  "filter is_version_write (fst (installFail rt option e)) = []"
  "filter is_metadata_write (fst (installFail rt option e)) = []"
  "filter is_restart_timer (fst (installFail rt option e)) = []"
  "filter is_transport (fst (installFail rt option e)) = []"
  "filter is_activation (fst (installFail rt option e)) = []"
  "UpdateSuccess \<notin> set (fst (installFail rt option e))"
  "SetupBundlePath p x \<notin> set (fst (installFail rt option e))"
  "list_all is_report (fst (installFail rt option e))"
  by (cases rule: installFail_cases [of rt e option]; simp)+

lemma installFail_returns:
  assumes "option_updateFail option = Returns" and "JSON_stringify rt e = Inr d"
  shows "installFail rt option e = ([UpdateFail d, ConsoleError d], Inr ())"
  by (cases rule: installFail_cases [of rt e option]) (use assms in simp_all)

lemma installFail_updateFail_once:
  assumes "option_updateFail option \<noteq> Absent" and "JSON_stringify rt e = Inr d"
  shows "filter is_updateFail (fst (installFail rt option e)) = [UpdateFail d]"
  by (cases rule: installFail_cases [of rt e option]) (use assms in simp_all)


section \<open>The archive flow, path by path\<close>

text \<open>The \<open>catch\<close> block, applied to the way the \<open>try\<close> block ended.\<close>

lemma recover_simps [simp]:
  "recover rt option (Inr u) = ([], Inr ())"
  "recover rt option (Inl e) = installFail rt option e"
  by (simp_all add: recover_def)

lemma recover_only_reports:
  "filter is_version_write (fst (recover rt option res)) = []"
  "filter is_metadata_write (fst (recover rt option res)) = []"
  "filter is_restart_timer (fst (recover rt option res)) = []"
  "filter is_transport (fst (recover rt option res)) = []"
  "filter is_activation (fst (recover rt option res)) = []"
  "UpdateSuccess \<notin> set (fst (recover rt option res))"
  "SetupBundlePath p x \<notin> set (fst (recover rt option res))"
  "list_all is_report (fst (recover rt option res))"
  by (cases res; simp add: installFail_only_reports)+

lemma downloadBundleUri_catch_recover:
  "downloadBundleUri_catch rt env uri version option =
     (fst (downloadBundleUri_try rt env uri version option)
        @ fst (recover rt option (snd (downloadBundleUri_try rt env uri version option))),
      snd (recover rt option (snd (downloadBundleUri_try rt env uri version option))))"
proof (cases "downloadBundleUri_try rt env uri version option")
  case (Pair es res)
  then show ?thesis
    by (cases res) (simp_all add: downloadBundleUri_catch_def io_catch_def split: prod.split)
qed


lemma downloadBundleUri_try_cases
  [case_names fetch_rejected empty_path activation_rejected activation_false activated]:
  obtains
    e where "DM_fetch env uri (option_headers option) = Inl e"
      and "downloadBundleUri_try rt env uri version option =
             ([Fetch uri (option_headers option)], Inl e)"
  | "DM_fetch env uri (option_headers option) = Inr []"
      and "downloadBundleUri_try rt env uri version option =
             (Fetch uri (option_headers option) #
                fst (installFail rt option (JString ''Cannot download bundle file: '')),
              snd (installFail rt option (JString ''Cannot download bundle file: '')))"
  | path e where "DM_fetch env uri (option_headers option) = Inr path" and "path \<noteq> []"
      and "RN_setupBundlePath env path (option_extension option) = Inl e"
      and "downloadBundleUri_try rt env uri version option =
             ([Fetch uri (option_headers option), SetupBundlePath path (option_extension option)],
              Inl e)"
  | path where "DM_fetch env uri (option_headers option) = Inr path" and "path \<noteq> []"
      and "RN_setupBundlePath env path (option_extension option) = Inr False"
      and "downloadBundleUri_try rt env uri version option =
             ([Fetch uri (option_headers option), SetupBundlePath path (option_extension option)]
                @ fst (installFail rt option JUndefined),
              snd (installFail rt option JUndefined))"
  | path where "DM_fetch env uri (option_headers option) = Inr path" and "path \<noteq> []"
      and "RN_setupBundlePath env path (option_extension option) = Inr True"
      and "downloadBundleUri_try rt env uri version option =
             ([Fetch uri (option_headers option), SetupBundlePath path (option_extension option)]
                @ success_effects rt version option,
              success_result option)"
proof (cases "DM_fetch env uri (option_headers option)")
  case (Inl e)
  then have "downloadBundleUri_try rt env uri version option =
             ([Fetch uri (option_headers option)], Inl e)"
    by (simp add: downloadBundleUri_try_def downloadBundleFile_def call_def io_bind_def)
  with Inl show ?thesis by (rule that(1))
next
  case (Inr path)
  show ?thesis
  proof (cases "path = []")
    case True
    with Inr have f: "DM_fetch env uri (option_headers option) = Inr []" by simp
    then have "downloadBundleUri_try rt env uri version option =
             (Fetch uri (option_headers option) #
                fst (installFail rt option (JString ''Cannot download bundle file: '')),
              snd (installFail rt option (JString ''Cannot download bundle file: '')))"
      by (cases "installFail rt option (JString ''Cannot download bundle file: '')")
         (simp add: downloadBundleUri_try_def downloadBundleFile_def call_def io_bind_def)
    with f show ?thesis by (rule that(2))
  next
    case False
    show ?thesis
    proof (cases "RN_setupBundlePath env path (option_extension option)")
      case (Inl e)
      with Inr False have "downloadBundleUri_try rt env uri version option =
             ([Fetch uri (option_headers option), SetupBundlePath path (option_extension option)],
              Inl e)"
        by (simp add: downloadBundleUri_try_def downloadBundleFile_def setupBundlePath_def
            call_def io_bind_def)
      with Inr False Inl show ?thesis by (rule that(3))
    next
      case act: (Inr success)
      show ?thesis
      proof (cases success)
        case no: False
        with Inr False act have "downloadBundleUri_try rt env uri version option =
             ([Fetch uri (option_headers option), SetupBundlePath path (option_extension option)]
                @ fst (installFail rt option JUndefined),
              snd (installFail rt option JUndefined))"
          by (cases "installFail rt option JUndefined")
             (simp add: downloadBundleUri_try_def downloadBundleFile_def setupBundlePath_def
                call_def io_bind_def)
        with Inr False act no show ?thesis by (simp add: that(4))
      next
        case True
        have "downloadBundleUri_try rt env uri version option =
             ([Fetch uri (option_headers option), SetupBundlePath path (option_extension option)]
                @ success_effects rt version option,
              success_result option)"
        proof (cases option)
          case None
          with Inr False act True show ?thesis
            by (cases version)
               (simp_all add: downloadBundleUri_try_def downloadBundleFile_def
                  setupBundlePath_def success_effects_def version_write_def metadata_write_def
                  success_callback_def restart_timer_def success_result_def io_defs
                  setCurrentVersion_def)
        next
          case (Some opt)
          with Inr False act True show ?thesis
            by (cases version; cases "JSON_stringify rt (metadata opt)";
                cases "updateSuccess opt")
               (simp_all add: downloadBundleUri_try_def downloadBundleFile_def
                  setupBundlePath_def success_effects_def version_write_def metadata_write_def
                  success_callback_def restart_timer_def success_result_def io_defs
                  setCurrentVersion_def setUpdateMetadata_def)
        qed
        with Inr False act True show ?thesis by (simp add: that(5))
      qed
    qed
  qed
qed

text \<open>The whole function: the URL check and the version check in front of the \<open>try\<close>.\<close>

lemma downloadBundleUri_cases [case_names invalid_url read_failed rejected admitted unversioned]:
  obtains
    "uri = []"
      and "downloadBundleUri rt env uri version option =
             installFail rt option (JString ''Please give a valid URL!'')"
  | v e where "uri \<noteq> []" and "version = Some v" and "truthy_num v"
      and "RN_getCurrentVersion env = Inl e"
      and "downloadBundleUri rt env uri version option = ([GetCurrentVersion], Inl e)"
  | v raw where "uri \<noteq> []" and "version = Some v" and "truthy_num v"
      and "RN_getCurrentVersion env = Inr raw" and "num_le v (ToNumber rt raw)"
      and "downloadBundleUri rt env uri version option =
             (GetCurrentVersion # fst (installFail rt option (version_message rt (ToNumber rt raw))),
              snd (installFail rt option (version_message rt (ToNumber rt raw))))"
  | v raw where "uri \<noteq> []" and "version = Some v" and "truthy_num v"
      and "RN_getCurrentVersion env = Inr raw" and "\<not> num_le v (ToNumber rt raw)"
      and "downloadBundleUri rt env uri version option =
             (GetCurrentVersion # fst (downloadBundleUri_catch rt env uri version option),
              snd (downloadBundleUri_catch rt env uri version option))"
  | "uri \<noteq> []" and "version = None \<or> (\<exists>v. version = Some v \<and> \<not> truthy_num v)"
      and "downloadBundleUri rt env uri version option =
             downloadBundleUri_catch rt env uri version option"
proof (cases "uri = []")
  case True
  then show ?thesis by (simp add: that(1) downloadBundleUri_def)
next
  case uri: False
  show ?thesis
  proof (cases version)
    case None
    with uri show ?thesis by (simp add: that(5) downloadBundleUri_def)
  next
    case (Some v)
    show ?thesis
    proof (cases "truthy_num v")
      case False
      with uri Some show ?thesis by (simp add: that(5) downloadBundleUri_def)
    next
      case True
      show ?thesis
      proof (cases "RN_getCurrentVersion env")
        case (Inl e)
        with uri Some True have
          "downloadBundleUri rt env uri version option = ([GetCurrentVersion], Inl e)"
          by (simp add: downloadBundleUri_def getVersionAsNumber_def getCurrentVersion_def
              call_def io_bind_def)
        with uri Some True Inl show ?thesis by (rule that(2))
      next
        case (Inr raw)
        show ?thesis
        proof (cases "num_le v (ToNumber rt raw)")
          case le: True
          with uri Some True Inr have
            "downloadBundleUri rt env uri version option =
               (GetCurrentVersion # fst (installFail rt option (version_message rt (ToNumber rt raw))),
                snd (installFail rt option (version_message rt (ToNumber rt raw))))"
            by (cases "installFail rt option (version_message rt (ToNumber rt raw))")
               (simp add: downloadBundleUri_def getVersionAsNumber_def getCurrentVersion_def
                  call_def io_bind_def io_return_def)
          with uri Some True Inr le show ?thesis by (rule that(3))
        next
          case gt: False
          with uri Some True Inr have
            "downloadBundleUri rt env uri version option =
               (GetCurrentVersion # fst (downloadBundleUri_catch rt env uri version option),
                snd (downloadBundleUri_catch rt env uri version option))"
            by (simp add: downloadBundleUri_def getVersionAsNumber_def getCurrentVersion_def
                call_def io_bind_def io_return_def split: prod.split)
          with uri Some True Inr gt show ?thesis by (rule that(4))
        qed
      qed
    qed
  qed
qed

text \<open>Each piece of the effects of a success is empty or one event.\<close>

lemma version_write_cases:
  obtains "version_write rt version = []"
  | v where "version = Some v" and "truthy_num v"
      and "version_write rt version = [SetCurrentVersion (NumberToString rt v)]"
proof (cases version)
  case None
  then show ?thesis by (simp add: that(1) version_write_def)
next
  case (Some v)
  then show ?thesis by (cases "truthy_num v") (simp_all add: that version_write_def)
qed

lemma metadata_write_cases:
  obtains "metadata_write rt option = []"
  | opt ms where "option = Some opt" and "truthy (metadata opt)"
      and "JSON_stringify rt (metadata opt) = Inr ms"
      and "metadata_write rt option = [SetUpdateMetadata ms]"
proof (cases option)
  case None
  then show ?thesis by (simp add: that(1) metadata_write_def)
next
  case (Some opt)
  then show ?thesis
    by (cases "truthy (metadata opt)"; cases "JSON_stringify rt (metadata opt)")
       (simp_all add: that metadata_write_def)
qed

lemma success_callback_cases:
  obtains "success_callback option = []" and "option_updateSuccess option = Absent"
  | "success_callback option = [UpdateSuccess]" and "option_updateSuccess option \<noteq> Absent"
  by (cases "option_updateSuccess option = Absent") (simp_all add: success_callback_def)

lemma restart_timer_cases:
  obtains "restart_timer option = []"
  | opt d where "option = Some opt" and "restartAfterInstall opt"
      and "restart_timer option = [SetTimeout d]"
proof (cases option)
  case None
  then show ?thesis by (simp add: that(1) restart_timer_def)
next
  case (Some opt)
  then show ?thesis by (cases "restartAfterInstall opt") (simp_all add: that restart_timer_def)
qed

text \<open>The effects of a success, with the last piece named.\<close>

lemma success_effects_split:
  obtains "success_result option = Inr ()"
      and "success_effects rt version option =
             version_write rt version @ metadata_write rt option @ success_callback option
               @ restart_timer option"
  | e where "success_result option = Inl e"
      and "success_effects rt version option =
             version_write rt version @ metadata_write rt option @ [UpdateSuccess]"
  by (cases "option_updateSuccess option")
     (simp_all add: success_effects_def success_result_def success_callback_def)

lemma success_effects_version_writes:
  "filter is_version_write (success_effects rt version option) = version_write rt version"
  by (rule success_effects_split [of option rt version];
      rule version_write_cases [of rt version]; rule metadata_write_cases [of rt option];
      rule success_callback_cases [of option]; rule restart_timer_cases [of option])
     simp_all

lemma success_effects_metadata_writes:
  "filter is_metadata_write (success_effects rt version option) = metadata_write rt option"
  by (rule success_effects_split [of option rt version];
      rule version_write_cases [of rt version]; rule metadata_write_cases [of rt option];
      rule success_callback_cases [of option]; rule restart_timer_cases [of option])
     simp_all

lemma success_effects_callbacks:
  "filter (\<lambda>ev. ev = UpdateSuccess) (success_effects rt version option) = success_callback option"
  by (rule success_effects_split [of option rt version];
      rule version_write_cases [of rt version]; rule metadata_write_cases [of rt option];
      rule success_callback_cases [of option]; rule restart_timer_cases [of option])
     (simp_all add: success_result_def success_callback_def split: cb.splits)

lemma success_effects_timers:
  "success_result option = Inr () \<Longrightarrow>
     filter is_restart_timer (success_effects rt version option) = restart_timer option"
  "success_result option = Inl e \<Longrightarrow>
     filter is_restart_timer (success_effects rt version option) = []"
  by (rule success_effects_split [of option rt version];
      rule version_write_cases [of rt version]; rule metadata_write_cases [of rt option];
      rule success_callback_cases [of option]; rule restart_timer_cases [of option];
      simp)+

lemma success_effects_no_report:
  "filter is_report (success_effects rt version option) = []"
  "filter is_updateFail (success_effects rt version option) = []"
  "SetupBundlePath p x \<notin> set (success_effects rt version option)"
  by (rule success_effects_split [of option rt version];
      rule version_write_cases [of rt version]; rule metadata_write_cases [of rt option];
      rule success_callback_cases [of option]; rule restart_timer_cases [of option];
      simp)+


text \<open>A run that called the activation service went through the \<open>try\<close> statement.\<close>

lemma activation_invoked:
  assumes invoked:
    "SetupBundlePath path ext \<in> set (fst (downloadBundleUri rt env uri version option))"
  obtains pre where
    "fst (downloadBundleUri rt env uri version option) =
       pre @ fst (downloadBundleUri_catch rt env uri version option)"
    and "snd (downloadBundleUri rt env uri version option) =
       snd (downloadBundleUri_catch rt env uri version option)"
    and "pre = [] \<or> pre = [GetCurrentVersion]"
    and "SetupBundlePath path ext \<in> set (fst (downloadBundleUri_catch rt env uri version option))"
proof (cases rule: downloadBundleUri_cases [of uri rt env version option])
  case invalid_url
  with invoked show ?thesis by (simp add: installFail_only_reports)
next
  case (read_failed v e)
  with invoked show ?thesis by simp
next
  case (rejected v raw)
  with invoked show ?thesis by (simp add: installFail_only_reports)
next
  case (admitted v raw)
  with invoked show ?thesis by (intro that [of "[GetCurrentVersion]"]) simp_all
next
  case unversioned
  with invoked show ?thesis by (intro that [of "[]"]) simp_all
qed

lemma catch_activated:
  assumes invoked:
    "SetupBundlePath path ext \<in> set (fst (downloadBundleUri_catch rt env uri version option))"
    and answer: "RN_setupBundlePath env path ext = Inr True"
  shows "downloadBundleUri_catch rt env uri version option =
           ([Fetch uri (option_headers option), SetupBundlePath path ext]
              @ success_effects rt version option
              @ fst (recover rt option (success_result option)),
            snd (recover rt option (success_result option)))"
proof (cases rule: downloadBundleUri_try_cases [of env uri option rt version])
  case (fetch_rejected e)
  with invoked show ?thesis
    by (simp add: downloadBundleUri_catch_recover installFail_only_reports)
next
  case empty_path
  with invoked show ?thesis
    by (simp add: downloadBundleUri_catch_recover installFail_only_reports recover_only_reports)
next
  case (activation_rejected p e)
  with invoked answer show ?thesis
    by (auto simp add: downloadBundleUri_catch_recover installFail_only_reports)
next
  case (activation_false p)
  with invoked answer show ?thesis
    by (auto simp add: downloadBundleUri_catch_recover installFail_only_reports
        recover_only_reports)
next
  case (activated p)
  with invoked have "path = p \<and> ext = option_extension option"
    by (simp add: downloadBundleUri_catch_recover success_effects_no_report recover_only_reports)
  with activated show ?thesis by (simp add: downloadBundleUri_catch_recover)
qed

lemma catch_refused:
  assumes invoked:
    "SetupBundlePath path ext \<in> set (fst (downloadBundleUri_catch rt env uri version option))"
    and answer: "RN_setupBundlePath env path ext = Inr False"
  shows "downloadBundleUri_catch rt env uri version option =
           ([Fetch uri (option_headers option), SetupBundlePath path ext]
              @ fst (installFail rt option JUndefined)
              @ fst (recover rt option (snd (installFail rt option JUndefined))),
            snd (recover rt option (snd (installFail rt option JUndefined))))"
proof (cases rule: downloadBundleUri_try_cases [of env uri option rt version])
  case (fetch_rejected e)
  with invoked show ?thesis
    by (simp add: downloadBundleUri_catch_recover installFail_only_reports)
next
  case empty_path
  with invoked show ?thesis
    by (simp add: downloadBundleUri_catch_recover installFail_only_reports recover_only_reports)
next
  case (activation_rejected p e)
  with invoked answer show ?thesis
    by (auto simp add: downloadBundleUri_catch_recover installFail_only_reports)
next
  case (activation_false p)
  with invoked have "path = p \<and> ext = option_extension option"
    by (simp add: downloadBundleUri_catch_recover installFail_only_reports recover_only_reports)
  with activation_false show ?thesis by (simp add: downloadBundleUri_catch_recover)
next
  case (activated p)
  with invoked answer show ?thesis
    by (auto simp add: downloadBundleUri_catch_recover success_effects_no_report
        recover_only_reports)
qed


section \<open>The version check\<close>

text \<open>
  C2, as the code has it. For a non-empty \<open>uri\<close> and a declared version that is truthy
  (not \<open>0\<close>, not \<open>NaN\<close>) and \<open><=\<close> the current version read from the store: no
  transport call, no activation call, no write of version or metadata, and \<open>updateFail\<close>
  (when supplied) called once, with the serialised message that ends with the current
  version. When \<open>updateFail\<close> returns, the whole run is the read of the version, that
  call and the log entry, and the promise resolves.
\<close>

theorem version_check_rejects:
  assumes "uri \<noteq> []" and "truthy_num v"
    and "RN_getCurrentVersion env = Inr raw"
    and "num_le v (ToNumber rt raw)"
  shows "let currentVersion = ToNumber rt raw;
             detail = Some (QuoteJSONString rt
               (''Please give a bigger version than the current version, the current version now has setted by: ''
                @ NumberToString rt currentVersion));
             trace = fst (downloadBundleUri rt env uri (Some v) option)
         in filter is_transport trace = [] \<and>
            filter is_activation trace = [] \<and>
            filter is_version_write trace = [] \<and>
            filter is_metadata_write trace = [] \<and>
            (option_updateFail option \<noteq> Absent \<longrightarrow>
               filter is_updateFail trace = [UpdateFail detail]) \<and>
            (option_updateFail option = Returns \<longrightarrow>
               downloadBundleUri rt env uri (Some v) option =
                 ([GetCurrentVersion, UpdateFail detail, ConsoleError detail], Inr ()))"
proof -
  let ?m = "version_message rt (ToNumber rt raw)"
  have r: "downloadBundleUri rt env uri (Some v) option =
          (GetCurrentVersion # fst (installFail rt option ?m), snd (installFail rt option ?m))"
    using assms
    by (cases "installFail rt option ?m")
       (simp add: downloadBundleUri_def getVersionAsNumber_def getCurrentVersion_def
          call_def io_bind_def io_return_def)
  have d: "JSON_stringify rt ?m =
      Inr (Some (QuoteJSONString rt
               (''Please give a bigger version than the current version, the current version now has setted by: ''
                @ NumberToString rt (ToNumber rt raw))))"
    by simp
  have once: "option_updateFail option \<noteq> Absent \<Longrightarrow>
      filter is_updateFail (fst (installFail rt option ?m)) =
        [UpdateFail (Some (QuoteJSONString rt
               (''Please give a bigger version than the current version, the current version now has setted by: ''
                @ NumberToString rt (ToNumber rt raw))))]"
    using d by (rule installFail_updateFail_once [rotated])
  have whole: "option_updateFail option = Returns \<Longrightarrow>
      installFail rt option ?m =
        ([UpdateFail (Some (QuoteJSONString rt
               (''Please give a bigger version than the current version, the current version now has setted by: ''
                @ NumberToString rt (ToNumber rt raw)))),
          ConsoleError (Some (QuoteJSONString rt
               (''Please give a bigger version than the current version, the current version now has setted by: ''
                @ NumberToString rt (ToNumber rt raw))))], Inr ())"
    using d by (rule installFail_returns [rotated])
  show ?thesis
    unfolding Let_def r
    using once whole by (simp add: installFail_only_reports)
qed

theorem version_check_rejects_witness:
  "truthy_num (Fin 2) \<and>
   RN_getCurrentVersion sample_env = Inr ''3'' \<and>
   num_le (Fin 2) (ToNumber sample_rt ''3'') \<and>
   updateFail sample_option = Returns \<and>
   downloadBundleUri sample_rt sample_env ''https://host/b.zip'' (Some (Fin 2))
          (Some sample_option) =
     ([GetCurrentVersion,
       UpdateFail (Some (QuoteJSONString sample_rt
         (''Please give a bigger version than the current version, the current version now has setted by: ''
          @ NumberToString sample_rt (Fin 3)))),
       ConsoleError (Some (QuoteJSONString sample_rt
         (''Please give a bigger version than the current version, the current version now has setted by: ''
          @ NumberToString sample_rt (Fin 3))))], Inr ())"
proof -
  have uri: "''https://host/b.zip'' \<noteq> []" by simp
  have v: "truthy_num (Fin 2)" by simp
  have raw: "RN_getCurrentVersion sample_env = Inr ''3''" by (simp add: sample_env_def)
  have cur: "ToNumber sample_rt ''3'' = Fin 3" by (simp add: sample_rt_def sample_numbers)
  then have le: "num_le (Fin 2) (ToNumber sample_rt ''3'')" by simp
  have cb: "updateFail sample_option = Returns" by (simp add: sample_option_def)
  from version_check_rejects [OF uri v raw le, of "Some sample_option"] v raw le cb cur
  show ?thesis by (simp add: Let_def)
qed

text \<open>
  C2 as stated fails in two places. A declared version \<open>0\<close> is supplied and is \<open><=\<close> the
  stored version \<open>3\<close>, but \<open>if (version)\<close> reads \<open>0\<close> as absent: the check is skipped and
  the download and the activation run. With an empty \<open>uri\<close> and the declared version \<open>2\<close>
  (again \<open><=\<close> the stored \<open>3\<close>) the run fails on the URL check first: the message is the
  URL message and carries no version.
\<close>

theorem version_check_skipped_counterexample:
  "RN_getCurrentVersion sample_env = Inr ''3'' \<and>
   num_le (Fin 0) (ToNumber sample_rt ''3'') \<and>
   downloadBundleUri sample_rt sample_env ''https://host/b.zip'' (Some (Fin 0)) (Some sample_option) =
     ([Fetch ''https://host/b.zip'' None, SetupBundlePath ''/tmp/b.zip'' None, UpdateSuccess], Inr ()) \<and>
   num_le (Fin 2) (ToNumber sample_rt ''3'') \<and>
   downloadBundleUri sample_rt sample_env [] (Some (Fin 2)) (Some sample_option) =
     ([UpdateFail (Some (quote_string ''Please give a valid URL!'')),
       ConsoleError (Some (quote_string ''Please give a valid URL!''))], Inr ())"
  by code_simp


section \<open>A refused activation\<close>

text \<open>
  C4, as the code has it. In a run where the activation service was called and answered
  \<open>false\<close>: no version write, no metadata write, no success callback, no restart timer.
  When \<open>updateFail\<close> is supplied and returns, it is called exactly once, with no detail,
  and the promise resolves. When \<open>updateFail\<close> throws \<open>x\<close>, the \<open>catch\<close> block calls it a
  second time with \<open>JSON.stringify(x)\<close>, unless \<open>JSON.stringify\<close> refuses \<open>x\<close>, and then
  it was called once; in both cases the promise rejects.
\<close>

theorem activation_false_only_fails:
  assumes invoked:
      "SetupBundlePath path ext \<in> set (fst (downloadBundleUri rt env uri version option))"
    and answer: "RN_setupBundlePath env path ext = Inr False"
  shows "let r = downloadBundleUri rt env uri version option; trace = fst r in
         filter is_version_write trace = [] \<and>
         filter is_metadata_write trace = [] \<and>
         UpdateSuccess \<notin> set trace \<and>
         filter is_restart_timer trace = [] \<and>
         (option_updateFail option = Returns \<longrightarrow>
            filter is_updateFail trace = [UpdateFail None] \<and> snd r = Inr ()) \<and>
         (\<forall>x s. option_updateFail option = Throws x \<and> JSON_stringify rt x = Inr s \<longrightarrow>
            filter is_updateFail trace = [UpdateFail None, UpdateFail s] \<and> snd r = Inl x) \<and>
         (\<forall>x e. option_updateFail option = Throws x \<and> JSON_stringify rt x = Inl e \<longrightarrow>
            filter is_updateFail trace = [UpdateFail None] \<and> snd r = Inl e)"
proof -
  from invoked obtain pre where
    trace: "fst (downloadBundleUri rt env uri version option) =
       pre @ fst (downloadBundleUri_catch rt env uri version option)"
    and result: "snd (downloadBundleUri rt env uri version option) =
       snd (downloadBundleUri_catch rt env uri version option)"
    and pre: "pre = [] \<or> pre = [GetCurrentVersion]"
    and c: "SetupBundlePath path ext \<in> set (fst (downloadBundleUri_catch rt env uri version option))"
    by (rule activation_invoked)
  note shape = catch_refused [OF c answer]
  have u: "JSON_stringify rt JUndefined = Inr None" by simp
  have ret: "installFail rt option JUndefined = ([UpdateFail None, ConsoleError None], Inr ())"
    if "option_updateFail option = Returns"
    using that u by (rule installFail_returns)
  have first: "installFail rt option JUndefined = ([UpdateFail None], Inl x)"
    if "option_updateFail option = Throws x" for x
    by (cases rule: installFail_cases [of rt JUndefined option]) (use that in simp_all)
  have again: "installFail rt option x = ([UpdateFail s], Inl x)"
    if "option_updateFail option = Throws x" and "JSON_stringify rt x = Inr s" for x s
    by (cases rule: installFail_cases [of rt x option]) (use that in simp_all)
  have refused: "installFail rt option x = ([], Inl e)"
    if "JSON_stringify rt x = Inl e" for x e
    by (cases rule: installFail_cases [of rt x option]) (use that in simp_all)
  have general: "filter is_version_write (fst (downloadBundleUri rt env uri version option)) = [] \<and>
         filter is_metadata_write (fst (downloadBundleUri rt env uri version option)) = [] \<and>
         UpdateSuccess \<notin> set (fst (downloadBundleUri rt env uri version option)) \<and>
         filter is_restart_timer (fst (downloadBundleUri rt env uri version option)) = []"
    using pre unfolding trace shape
    by (auto simp add: installFail_only_reports recover_only_reports)
  have returns: "filter is_updateFail (fst (downloadBundleUri rt env uri version option)) =
            [UpdateFail None] \<and> snd (downloadBundleUri rt env uri version option) = Inr ()"
    if "option_updateFail option = Returns"
    using pre unfolding trace result shape by (auto simp add: ret [OF that])
  have twice: "filter is_updateFail (fst (downloadBundleUri rt env uri version option)) =
            [UpdateFail None, UpdateFail s] \<and>
          snd (downloadBundleUri rt env uri version option) = Inl x"
    if "option_updateFail option = Throws x" and "JSON_stringify rt x = Inr s" for x s
    using pre unfolding trace result shape
    by (auto simp add: first [OF that(1)] again [OF that])
  have once: "filter is_updateFail (fst (downloadBundleUri rt env uri version option)) =
            [UpdateFail None] \<and>
          snd (downloadBundleUri rt env uri version option) = Inl e"
    if "option_updateFail option = Throws x" and "JSON_stringify rt x = Inl e" for x e
    using pre unfolding trace result shape
    by (auto simp add: first [OF that(1)] refused [OF that(2)])
  from general returns twice once show ?thesis
    unfolding Let_def by blast
qed

theorem activation_false_only_fails_witness:
  "SetupBundlePath ''/tmp/b.zip'' None \<in>
     set (fst (downloadBundleUri sample_rt refusing_env ''https://host/b.zip'' (Some (Fin 5))
                 (Some sample_option))) \<and>
   RN_setupBundlePath refusing_env ''/tmp/b.zip'' None = Inr False \<and>
   updateFail sample_option = Returns \<and>
   filter is_version_write
     (fst (downloadBundleUri sample_rt refusing_env ''https://host/b.zip'' (Some (Fin 5))
             (Some sample_option))) = [] \<and>
   filter is_metadata_write
     (fst (downloadBundleUri sample_rt refusing_env ''https://host/b.zip'' (Some (Fin 5))
             (Some sample_option))) = [] \<and>
   UpdateSuccess \<notin>
     set (fst (downloadBundleUri sample_rt refusing_env ''https://host/b.zip'' (Some (Fin 5))
                 (Some sample_option))) \<and>
   filter is_restart_timer
     (fst (downloadBundleUri sample_rt refusing_env ''https://host/b.zip'' (Some (Fin 5))
             (Some sample_option))) = [] \<and>
   filter is_updateFail
     (fst (downloadBundleUri sample_rt refusing_env ''https://host/b.zip'' (Some (Fin 5))
             (Some sample_option))) = [UpdateFail None] \<and>
   snd (downloadBundleUri sample_rt refusing_env ''https://host/b.zip'' (Some (Fin 5))
          (Some sample_option)) = Inr () \<and>
   SetupBundlePath ''/tmp/b.zip'' None \<in>
     set (fst (downloadBundleUri sample_rt refusing_env ''https://host/b.zip'' (Some (Fin 5))
                 (Some throwing_fail_option))) \<and>
   updateFail throwing_fail_option = Throws (JObject (JSError ''callback failed'')) \<and>
   JSON_stringify sample_rt (JObject (JSError ''callback failed'')) = Inr (Some ''{}'') \<and>
   filter is_updateFail
     (fst (downloadBundleUri sample_rt refusing_env ''https://host/b.zip'' (Some (Fin 5))
             (Some throwing_fail_option))) = [UpdateFail None, UpdateFail (Some ''{}'')] \<and>
   snd (downloadBundleUri sample_rt refusing_env ''https://host/b.zip'' (Some (Fin 5))
          (Some throwing_fail_option)) = Inl (JObject (JSError ''callback failed''))"
proof -
  have invoked: "SetupBundlePath ''/tmp/b.zip'' None \<in>
     set (fst (downloadBundleUri sample_rt refusing_env ''https://host/b.zip'' (Some (Fin 5))
                 (Some sample_option)))"
    by code_simp
  have invoked': "SetupBundlePath ''/tmp/b.zip'' None \<in>
     set (fst (downloadBundleUri sample_rt refusing_env ''https://host/b.zip'' (Some (Fin 5))
                 (Some throwing_fail_option)))"
    by code_simp
  have answer: "RN_setupBundlePath refusing_env ''/tmp/b.zip'' None = Inr False"
    by (simp add: refusing_env_def)
  have cb: "updateFail sample_option = Returns" by (simp add: sample_option_def)
  have cb': "updateFail throwing_fail_option = Throws (JObject (JSError ''callback failed''))"
    by (simp add: throwing_fail_option_def)
  have ser: "JSON_stringify sample_rt (JObject (JSError ''callback failed'')) = Inr (Some ''{}'')"
    by simp
  note returns = activation_false_only_fails [OF invoked answer, unfolded Let_def]
  note throws = activation_false_only_fails [OF invoked' answer, unfolded Let_def]
  from throws cb' ser have twice:
    "filter is_updateFail
       (fst (downloadBundleUri sample_rt refusing_env ''https://host/b.zip'' (Some (Fin 5))
             (Some throwing_fail_option))) = [UpdateFail None, UpdateFail (Some ''{}'')] \<and>
     snd (downloadBundleUri sample_rt refusing_env ''https://host/b.zip'' (Some (Fin 5))
          (Some throwing_fail_option)) = Inl (JObject (JSError ''callback failed''))"
    by simp
  from returns twice invoked invoked' answer cb cb' ser
  show ?thesis by simp
qed

text \<open>
  C4 as stated fails for an \<open>updateFail\<close> that throws. \<open>installFail(option)\<close> is called
  inside \<open>try\<close> (line 146), so the exception of the callback is caught at line 161 and
  \<open>installFail(option, e)\<close> calls \<open>updateFail\<close> a second time, with the serialised
  exception; that call throws again and the promise rejects.
\<close>

theorem throwing_updateFail_counterexample:
  "updateFail throwing_fail_option = Throws (JObject (JSError ''callback failed'')) \<and>
   RN_setupBundlePath refusing_env ''/tmp/b.zip'' None = Inr False \<and>
   downloadBundleUri sample_rt refusing_env ''https://host/b.zip'' None (Some throwing_fail_option) =
     ([Fetch ''https://host/b.zip'' None, SetupBundlePath ''/tmp/b.zip'' None,
       UpdateFail None, UpdateFail (Some ''{}'')],
      Inl (JObject (JSError ''callback failed''))) \<and>
   filter is_updateFail
     (fst (downloadBundleUri sample_rt refusing_env ''https://host/b.zip'' None
             (Some throwing_fail_option))) =
     [UpdateFail None, UpdateFail (Some ''{}'')]"
  by code_simp


section \<open>Success of the archive flow\<close>

text \<open>
  C5, as the code has it. In a run where the activation service was called and answered
  \<open>true\<close> (so the URL was not empty, the version check let the version through and the
  download resolved to a non-empty path), with a declared version that is truthy,
  metadata that is truthy and that \<open>JSON.stringify\<close> serialises to \<open>ms\<close>:
  \<open>updateSuccess\<close> (when supplied) is called exactly once, the version is written
  exactly once (as the string of the declared version) and the metadata is written
  exactly once (as \<open>ms\<close>).
\<close>

theorem activation_true_persists_once:
  assumes invoked:
      "SetupBundlePath path ext \<in> set (fst (downloadBundleUri rt env uri (Some v) (Some opt)))"
    and answer: "RN_setupBundlePath env path ext = Inr True"
    and version: "truthy_num v"
    and payload: "truthy (metadata opt)"
    and serialised: "JSON_stringify rt (metadata opt) = Inr ms"
  shows "let trace = fst (downloadBundleUri rt env uri (Some v) (Some opt)) in
         (updateSuccess opt \<noteq> Absent \<longrightarrow>
            filter (\<lambda>ev. ev = UpdateSuccess) trace = [UpdateSuccess]) \<and>
         filter is_version_write trace = [SetCurrentVersion (NumberToString rt v)] \<and>
         filter is_metadata_write trace = [SetUpdateMetadata ms]"
proof -
  from invoked obtain pre where
    trace: "fst (downloadBundleUri rt env uri (Some v) (Some opt)) =
       pre @ fst (downloadBundleUri_catch rt env uri (Some v) (Some opt))"
    and pre: "pre = [] \<or> pre = [GetCurrentVersion]"
    and c: "SetupBundlePath path ext \<in>
       set (fst (downloadBundleUri_catch rt env uri (Some v) (Some opt)))"
    by (rule activation_invoked)
  note shape = catch_activated [OF c answer]
  have v: "version_write rt (Some v) = [SetCurrentVersion (NumberToString rt v)]"
    using version by (simp add: version_write_def)
  have m: "metadata_write rt (Some opt) = [SetUpdateMetadata ms]"
    using payload serialised by (simp add: metadata_write_def)
  have s: "updateSuccess opt \<noteq> Absent \<longrightarrow> success_callback (Some opt) = [UpdateSuccess]"
    by (simp add: success_callback_def)
  have quiet: "filter (\<lambda>ev. ev = UpdateSuccess) (fst (recover rt (Some opt) res)) = []" for res
    using recover_only_reports(6) [of rt "Some opt" res] by (auto simp add: filter_empty_conv)
  from pre s show ?thesis
    unfolding Let_def trace shape
    by (auto simp add: success_effects_callbacks success_effects_version_writes
          success_effects_metadata_writes recover_only_reports quiet v m)
qed

theorem activation_true_persists_once_witness:
  "SetupBundlePath ''/tmp/b.zip'' None \<in>
     set (fst (downloadBundleUri sample_rt sample_env ''https://host/b.zip'' (Some (Fin 5))
                 (Some metadata_option))) \<and>
   RN_setupBundlePath sample_env ''/tmp/b.zip'' None = Inr True \<and>
   truthy_num (Fin 5) \<and>
   truthy (metadata metadata_option) \<and>
   JSON_stringify sample_rt (metadata metadata_option) = Inr (Some ''{}'') \<and>
   updateSuccess metadata_option = Returns \<and>
   filter (\<lambda>ev. ev = UpdateSuccess)
     (fst (downloadBundleUri sample_rt sample_env ''https://host/b.zip'' (Some (Fin 5))
             (Some metadata_option))) = [UpdateSuccess] \<and>
   filter is_version_write
     (fst (downloadBundleUri sample_rt sample_env ''https://host/b.zip'' (Some (Fin 5))
             (Some metadata_option))) = [SetCurrentVersion ''5''] \<and>
   filter is_metadata_write
     (fst (downloadBundleUri sample_rt sample_env ''https://host/b.zip'' (Some (Fin 5))
             (Some metadata_option))) = [SetUpdateMetadata (Some ''{}'')]"
proof -
  have invoked: "SetupBundlePath ''/tmp/b.zip'' None \<in>
     set (fst (downloadBundleUri sample_rt sample_env ''https://host/b.zip'' (Some (Fin 5))
                 (Some metadata_option)))"
    by code_simp
  have answer: "RN_setupBundlePath sample_env ''/tmp/b.zip'' None = Inr True"
    by (simp add: sample_env_def)
  have v: "truthy_num (Fin 5)" by simp
  have m: "truthy (metadata metadata_option)"
    by (simp add: metadata_option_def sample_option_def)
  have ser: "JSON_stringify sample_rt (metadata metadata_option) = Inr (Some ''{}'')"
    by (simp add: metadata_option_def sample_option_def sample_rt_def)
  have cb: "updateSuccess metadata_option = Returns"
    by (simp add: metadata_option_def sample_option_def)
  have n: "NumberToString sample_rt (Fin 5) = ''5''"
    by (simp add: sample_rt_def sample_numbers)
  from activation_true_persists_once [OF invoked answer v m ser] invoked answer v m ser cb n
  show ?thesis by (simp add: Let_def)
qed

text \<open>
  C5 as stated fails for a supplied version or metadata that is falsy: with the declared
  version \<open>0\<close> and the metadata \<open>false\<close>, a successful download and activation are
  followed by the success callback only; neither the version nor the metadata is
  written.
\<close>

theorem falsy_version_and_metadata_counterexample:
  "DM_fetch sample_env ''https://host/b.zip'' (headers falsy_metadata_option) = Inr ''/tmp/b.zip'' \<and>
   RN_setupBundlePath sample_env ''/tmp/b.zip'' (extensionBundle falsy_metadata_option) = Inr True \<and>
   metadata falsy_metadata_option = JBool False \<and>
   downloadBundleUri sample_rt sample_env ''https://host/b.zip'' (Some (Fin 0))
     (Some falsy_metadata_option) =
     ([Fetch ''https://host/b.zip'' None, SetupBundlePath ''/tmp/b.zip'' None, UpdateSuccess],
      Inr ())"
  by code_simp

text \<open>
  C10, as the code has it. In a run where the activation succeeded, \<open>updateSuccess\<close>
  did not throw and \<open>restartAfterInstall\<close> is set, exactly one restart is scheduled. Its
  delay is the default \<open>300\<close> when \<open>restartDelay\<close> is \<open>0\<close>, absent or \<open>NaN\<close> (the falsy
  values of \<open>restartDelay || 300\<close>), and \<open>restartDelay\<close> itself when it is any other
  number.
\<close>

theorem restartDelay_zero_uses_default:
  assumes invoked:
      "SetupBundlePath path ext \<in> set (fst (downloadBundleUri rt env uri version (Some opt)))"
    and answer: "RN_setupBundlePath env path ext = Inr True"
    and returned: "\<forall>e. updateSuccess opt \<noteq> Throws e"
    and restart: "restartAfterInstall opt"
  shows "let timers = filter is_restart_timer (fst (downloadBundleUri rt env uri version (Some opt)))
         in (restartDelay opt = Some (Fin 0) \<longrightarrow> timers = [SetTimeout (Fin 300)]) \<and>
            (restartDelay opt = None \<longrightarrow> timers = [SetTimeout (Fin 300)]) \<and>
            (restartDelay opt = Some NaN \<longrightarrow> timers = [SetTimeout (Fin 300)]) \<and>
            (\<forall>d. d \<noteq> 0 \<and> restartDelay opt = Some (Fin d) \<longrightarrow> timers = [SetTimeout (Fin d)])"
proof -
  from invoked obtain pre where
    trace: "fst (downloadBundleUri rt env uri version (Some opt)) =
       pre @ fst (downloadBundleUri_catch rt env uri version (Some opt))"
    and pre: "pre = [] \<or> pre = [GetCurrentVersion]"
    and c: "SetupBundlePath path ext \<in>
       set (fst (downloadBundleUri_catch rt env uri version (Some opt)))"
    by (rule activation_invoked)
  note shape = catch_activated [OF c answer]
  from returned have ok: "success_result (Some opt) = Inr ()"
    by (cases "updateSuccess opt") (simp_all add: success_result_def)
  from pre have
    "filter is_restart_timer (fst (downloadBundleUri rt env uri version (Some opt))) =
       restart_timer (Some opt)"
    unfolding trace shape
    by (auto simp add: success_effects_timers(1) [OF ok] ok)
  with restart show ?thesis
    by (simp only: Let_def) (simp add: restart_timer_def)
qed

theorem restartDelay_zero_uses_default_witness:
  "SetupBundlePath ''/tmp/b.zip'' None \<in>
     set (fst (downloadBundleUri sample_rt sample_env ''https://host/b.zip'' (Some (Fin 5))
                 (Some restart_now_option))) \<and>
   RN_setupBundlePath sample_env ''/tmp/b.zip'' None = Inr True \<and>
   updateSuccess restart_now_option = Returns \<and>
   restartAfterInstall restart_now_option \<and>
   restartDelay restart_now_option = Some (Fin 0) \<and>
   filter is_restart_timer
     (fst (downloadBundleUri sample_rt sample_env ''https://host/b.zip'' (Some (Fin 5))
             (Some restart_now_option))) = [SetTimeout (Fin 300)] \<and>
   SetupBundlePath ''/tmp/b.zip'' None \<in>
     set (fst (downloadBundleUri sample_rt sample_env ''https://host/b.zip'' (Some (Fin 5))
                 (Some restart_later_option))) \<and>
   updateSuccess restart_later_option = Returns \<and>
   restartAfterInstall restart_later_option \<and>
   restartDelay restart_later_option = Some (Fin 50) \<and>
   filter is_restart_timer
     (fst (downloadBundleUri sample_rt sample_env ''https://host/b.zip'' (Some (Fin 5))
             (Some restart_later_option))) = [SetTimeout (Fin 50)]"
proof -
  have invoked: "SetupBundlePath ''/tmp/b.zip'' None \<in>
     set (fst (downloadBundleUri sample_rt sample_env ''https://host/b.zip'' (Some (Fin 5))
                 (Some restart_now_option)))"
    by code_simp
  have invoked': "SetupBundlePath ''/tmp/b.zip'' None \<in>
     set (fst (downloadBundleUri sample_rt sample_env ''https://host/b.zip'' (Some (Fin 5))
                 (Some restart_later_option)))"
    by code_simp
  have answer: "RN_setupBundlePath sample_env ''/tmp/b.zip'' None = Inr True"
    by (simp add: sample_env_def)
  have s: "updateSuccess restart_now_option = Returns"
    by (simp add: restart_now_option_def sample_option_def)
  then have n: "\<forall>e. updateSuccess restart_now_option \<noteq> Throws e" by simp
  have s': "updateSuccess restart_later_option = Returns"
    by (simp add: restart_later_option_def sample_option_def)
  then have n': "\<forall>e. updateSuccess restart_later_option \<noteq> Throws e" by simp
  have r: "restartAfterInstall restart_now_option"
    by (simp add: restart_now_option_def sample_option_def)
  have d: "restartDelay restart_now_option = Some (Fin 0)"
    by (simp add: restart_now_option_def sample_option_def)
  have r': "restartAfterInstall restart_later_option"
    by (simp add: restart_later_option_def sample_option_def)
  have d': "restartDelay restart_later_option = Some (Fin 50)"
    by (simp add: restart_later_option_def sample_option_def)
  from restartDelay_zero_uses_default [OF invoked answer n r]
    restartDelay_zero_uses_default [OF invoked' answer n' r'] invoked invoked' answer r d r' d' s s'
  show ?thesis by (simp add: Let_def)
qed

text \<open>
  C10 as stated says that any non-zero \<open>restartDelay\<close> is used as given. \<open>NaN\<close> is a
  number other than \<open>0\<close>, and it is replaced by \<open>300\<close> as well.
\<close>

theorem restartDelay_nan_counterexample:
  "restartAfterInstall nan_delay_option \<and>
   restartDelay nan_delay_option = Some NaN \<and>
   filter is_restart_timer
     (fst (downloadBundleUri sample_rt sample_env ''https://host/b.zip'' (Some (Fin 5))
             (Some nan_delay_option))) = [SetTimeout (Fin 300)]"
  by code_simp


section \<open>Failures of the archive flow\<close>











section \<open>Metadata through the store\<close>





section \<open>The git flow, path by path\<close>

text \<open>
  The pull branch and the clone branch, by what git answers. An outcome callback that
  throws ends its branch with that exception, after the call and before the restart
  timer.
\<close>

lemma git_pull_branch_cases [case_names pull_rejected pull_succeeded pull_failed]:
  obtains
    e where "git_pullUpdate env b (folderName options) = Inl e"
      and "git_pull_branch env options b = ([GitPull b (folderName options)], Inl e)"
  | pull where "git_pullUpdate env b (folderName options) = Inr pull" and "pull_success pull"
      and "git_pull_branch env options b =
             (GitPull b (folderName options) #
                (if onPullSuccess options = Absent then [] else [OnPullSuccess]) @
                (if cb_result (onPullSuccess options) = Inr () \<and> git_restartAfterInstall options
                 then [SetTimeout (Fin 300)] else []),
              cb_result (onPullSuccess options))"
  | pull where "git_pullUpdate env b (folderName options) = Inr pull" and "\<not> pull_success pull"
      and "git_pull_branch env options b =
             (GitPull b (folderName options) #
                (if onPullFailed options = Absent then [] else [OnPullFailed (pull_msg pull)]),
              cb_result (onPullFailed options))"
proof (cases "git_pullUpdate env b (folderName options)")
  case (Inl e)
  then show ?thesis by (simp add: that(1) git_pull_branch_def call_def io_bind_def)
next
  case (Inr pull)
  show ?thesis
  proof (cases "pull_success pull")
    case True
    with Inr have "git_pull_branch env options b =
             (GitPull b (folderName options) #
                (if onPullSuccess options = Absent then [] else [OnPullSuccess]) @
                (if cb_result (onPullSuccess options) = Inr () \<and> git_restartAfterInstall options
                 then [SetTimeout (Fin 300)] else []),
              cb_result (onPullSuccess options))"
      by (cases rule: cb_result_cases [of "onPullSuccess options"])
         (simp_all add: git_pull_branch_def call_def io_bind_def callback_eq emit_def
            io_return_def)
    with Inr True show ?thesis by (rule that(2))
  next
    case False
    with Inr have "git_pull_branch env options b =
             (GitPull b (folderName options) #
                (if onPullFailed options = Absent then [] else [OnPullFailed (pull_msg pull)]),
              cb_result (onPullFailed options))"
      by (cases rule: cb_result_cases [of "onPullFailed options"])
         (simp_all add: git_pull_branch_def call_def io_bind_def callback_eq)
    with Inr False show ?thesis by (rule that(3))
  qed
qed

lemma git_clone_branch_cases
  [case_names clone_rejected exact_rejected clone_succeeded clone_failed]:
  obtains
    e where "git_cloneRepo env (url options) (branch options) (bundlePath options)
               (folderName options) = Inl e"
      and "git_clone_branch env options =
             ([GitClone (url options) (branch options) (bundlePath options) (folderName options)],
              Inl e)"
  | clone bndl e where
      "git_cloneRepo env (url options) (branch options) (bundlePath options)
         (folderName options) = Inr clone"
      and "clone_success clone" and "clone_bundle clone = Some bndl" and "bndl \<noteq> []"
      and "RN_setExactBundlePath env bndl = Inl e"
      and "git_clone_branch env options =
             ([GitClone (url options) (branch options) (bundlePath options) (folderName options),
               SetExactBundlePath bndl],
              Inl e)"
  | clone bndl ok where
      "git_cloneRepo env (url options) (branch options) (bundlePath options)
         (folderName options) = Inr clone"
      and "clone_success clone" and "clone_bundle clone = Some bndl" and "bndl \<noteq> []"
      and "RN_setExactBundlePath env bndl = Inr ok"
      and "git_clone_branch env options =
             (GitClone (url options) (branch options) (bundlePath options) (folderName options) #
              SetExactBundlePath bndl #
                (if onCloneSuccess options = Absent then [] else [OnCloneSuccess]) @
                (if cb_result (onCloneSuccess options) = Inr () \<and> git_restartAfterInstall options
                 then [SetTimeout (Fin 300)] else []),
              cb_result (onCloneSuccess options))"
  | clone where
      "git_cloneRepo env (url options) (branch options) (bundlePath options)
         (folderName options) = Inr clone"
      and "\<not> (clone_success clone \<and> (\<exists>bundle. clone_bundle clone = Some bundle \<and> bundle \<noteq> []))"
      and "git_clone_branch env options =
             (GitClone (url options) (branch options) (bundlePath options) (folderName options) #
                (if onCloneFailed options = Absent then [] else [OnCloneFailed (clone_msg clone)]),
              cb_result (onCloneFailed options))"
proof (cases "git_cloneRepo env (url options) (branch options) (bundlePath options)
                (folderName options)")
  case (Inl e)
  then show ?thesis by (simp add: that(1) git_clone_branch_def call_def io_bind_def)
next
  case (Inr clone)
  show ?thesis
  proof (cases "clone_success clone \<and> (\<exists>bundle. clone_bundle clone = Some bundle \<and> bundle \<noteq> [])")
    case neg: False
    with Inr have "git_clone_branch env options =
             (GitClone (url options) (branch options) (bundlePath options) (folderName options) #
                (if onCloneFailed options = Absent then [] else [OnCloneFailed (clone_msg clone)]),
              cb_result (onCloneFailed options))"
      by (cases "clone_bundle clone"; cases "clone_success clone")
         (simp_all add: git_clone_branch_def call_def io_bind_def callback_eq)
    with Inr neg show ?thesis by (rule that(4))
  next
    case True
    then obtain bndl where s: "clone_success clone" and b: "clone_bundle clone = Some bndl"
      and n: "bndl \<noteq> []" by blast
    show ?thesis
    proof (cases "RN_setExactBundlePath env bndl")
      case (Inl e)
      with Inr s b n have "git_clone_branch env options =
             ([GitClone (url options) (branch options) (bundlePath options) (folderName options),
               SetExactBundlePath bndl],
              Inl e)"
        by (simp add: git_clone_branch_def call_def io_bind_def setupExactBundlePath_def)
      with Inr s b n Inl show ?thesis by (rule that(2))
    next
      case ok: (Inr ok)
      with Inr s b n have "git_clone_branch env options =
             (GitClone (url options) (branch options) (bundlePath options) (folderName options) #
              SetExactBundlePath bndl #
                (if onCloneSuccess options = Absent then [] else [OnCloneSuccess]) @
                (if cb_result (onCloneSuccess options) = Inr () \<and> git_restartAfterInstall options
                 then [SetTimeout (Fin 300)] else []),
              cb_result (onCloneSuccess options))"
        by (cases rule: cb_result_cases [of "onCloneSuccess options"])
           (simp_all add: git_clone_branch_def call_def io_bind_def setupExactBundlePath_def
              callback_eq emit_def io_return_def)
      with Inr s b n ok show ?thesis by (rule that(3))
    qed
  qed
qed

lemma checkForGitUpdate_try_cases [case_names precondition query_rejected pull clone]:
  obtains
    "url options = [] \<or> bundlePath options = []"
      and "checkForGitUpdate_try env options =
             ([], Inl (JObject (JSError ''url or bundlePath should not be null'')))"
  | e where "url options \<noteq> []" and "bundlePath options \<noteq> []"
      and "git_getConfig env = Inl e \<and>
             (git_getConfig_settles_first env \<or> (\<exists>b. git_getBranchName env = Inr b)) \<or>
           git_getBranchName env = Inl e \<and>
             (\<not> git_getConfig_settles_first env \<or> (\<exists>c. git_getConfig env = Inr c))"
      and "checkForGitUpdate_try env options = ([GitGetConfig, GitGetBranchName], Inl e)"
  | config b where "url options \<noteq> []" and "bundlePath options \<noteq> []"
      and "git_getConfig env = Inr (Some config)" and "git_getBranchName env = Inr (Some b)"
      and "b \<noteq> []"
      and "checkForGitUpdate_try env options =
             (GitGetConfig # GitGetBranchName # fst (git_pull_branch env options b),
              snd (git_pull_branch env options b))"
  | config branchName where "url options \<noteq> []" and "bundlePath options \<noteq> []"
      and "git_getConfig env = Inr config" and "git_getBranchName env = Inr branchName"
      and "config = None \<or> branchName = None \<or> branchName = Some []"
      and "checkForGitUpdate_try env options =
             (GitGetConfig # GitGetBranchName # fst (git_clone_branch env options),
              snd (git_clone_branch env options))"
proof (cases "url options = [] \<or> bundlePath options = []")
  case True
  then show ?thesis by (simp add: that(1) checkForGitUpdate_try_def)
next
  case pre: False
  show ?thesis
  proof (cases "git_getConfig env")
    case c: (Inl e1)
    show ?thesis
    proof (cases "git_getBranchName env")
      case (Inl e2)
      with pre c show ?thesis
        by (cases "git_getConfig_settles_first env")
           (simp_all add: that(2) [of e1] that(2) [of e2] checkForGitUpdate_try_def io_defs)
    next
      case (Inr branchName)
      with pre c show ?thesis
        by (simp add: that(2) [of e1] checkForGitUpdate_try_def io_defs)
    qed
  next
    case c: (Inr config)
    show ?thesis
    proof (cases "git_getBranchName env")
      case (Inl e)
      with pre c show ?thesis
        by (simp add: that(2) [of e] checkForGitUpdate_try_def io_defs)
    next
      case bn: (Inr branchName)
      show ?thesis
      proof (cases branchName)
        case None
        with pre c bn show ?thesis
          by (simp add: that(4) [of config branchName] checkForGitUpdate_try_def io_defs
              split: prod.split)
      next
        case (Some b)
        show ?thesis
        proof (cases "b \<noteq> [] \<and> config \<noteq> None")
          case True
          then obtain cfg where "config = Some cfg" by auto
          with pre c bn Some True show ?thesis
            by (simp add: that(3) [of cfg b] checkForGitUpdate_try_def io_defs
                split: prod.split)
        next
          case False
          with pre c bn Some show ?thesis
            by (auto simp add: that(4) [of config branchName] checkForGitUpdate_try_def io_defs
                split: prod.split)
        qed
      qed
    qed
  qed
qed

text \<open>
  The \<open>catch\<close> and \<open>finally\<close> blocks around the \<open>try\<close> block. In \<open>catch\<close>,
  \<open>e.toString()\<close> is evaluated only when \<open>onCloneFailed\<close> is supplied, and it can throw.
  \<open>onFinishProgress\<close> is called last on every exit, and an exception of its own
  replaces the outcome.
\<close>

lemma checkForGitUpdate_resolved:
  assumes "snd (checkForGitUpdate_try env options) = Inr u"
  shows "checkForGitUpdate rt env options =
           (fst (checkForGitUpdate_try env options)
              @ (if onFinishProgress options = Absent then [] else [OnFinishProgress]),
            cb_result (onFinishProgress options))"
  using assms
  by (cases "checkForGitUpdate_try env options";
      cases rule: cb_result_cases [of "onFinishProgress options"])
     (simp_all add: checkForGitUpdate_def io_catch_def io_finally_def callback_eq)

lemma checkForGitUpdate_caught_silent:
  assumes "snd (checkForGitUpdate_try env options) = Inl e"
    and "onCloneFailed options = Absent"
  shows "checkForGitUpdate rt env options =
           (fst (checkForGitUpdate_try env options)
              @ (if onFinishProgress options = Absent then [] else [OnFinishProgress]),
            cb_result (onFinishProgress options))"
  using assms
  by (cases "checkForGitUpdate_try env options";
      cases rule: cb_result_cases [of "onFinishProgress options"])
     (simp_all add: checkForGitUpdate_def io_catch_def io_finally_def callback_eq io_return_def)

lemma checkForGitUpdate_caught_no_text:
  assumes "snd (checkForGitUpdate_try env options) = Inl e"
    and "onCloneFailed options \<noteq> Absent" and "toString rt e = Inl thrown"
  shows "checkForGitUpdate rt env options =
           (fst (checkForGitUpdate_try env options)
              @ (if onFinishProgress options = Absent then [] else [OnFinishProgress]),
            (case cb_result (onFinishProgress options) of
               Inl x \<Rightarrow> Inl x
             | Inr u \<Rightarrow> Inl thrown))"
  using assms
  by (cases "checkForGitUpdate_try env options";
      cases rule: cb_result_cases [of "onFinishProgress options"])
     (simp_all add: checkForGitUpdate_def io_catch_def io_finally_def io_bind_def callback_eq)

lemma checkForGitUpdate_caught:
  assumes "snd (checkForGitUpdate_try env options) = Inl e"
    and "onCloneFailed options \<noteq> Absent" and "toString rt e = Inr message"
  shows "checkForGitUpdate rt env options =
           (fst (checkForGitUpdate_try env options)
              @ [OnCloneFailed (Some message)]
              @ (if onFinishProgress options = Absent then [] else [OnFinishProgress]),
            (case cb_result (onFinishProgress options) of
               Inl x \<Rightarrow> Inl x
             | Inr u \<Rightarrow> cb_result (onCloneFailed options)))"
  using assms
  by (cases "checkForGitUpdate_try env options";
      cases rule: cb_result_cases [of "onFinishProgress options"];
      cases rule: cb_result_cases [of "onCloneFailed options"])
     (simp_all add: checkForGitUpdate_def io_catch_def io_finally_def io_bind_def callback_eq)

lemma checkForGitUpdate_trace:
  obtains mid where
    "fst (checkForGitUpdate rt env options) =
       fst (checkForGitUpdate_try env options) @ mid
         @ (if onFinishProgress options = Absent then [] else [OnFinishProgress])"
    and "mid = [] \<or> (\<exists>m. mid = [OnCloneFailed m])"
proof (cases "snd (checkForGitUpdate_try env options)")
  case (Inr u)
  then show ?thesis by (intro that [of "[]"]) (simp_all add: checkForGitUpdate_resolved)
next
  case (Inl e)
  show ?thesis
  proof (cases "onCloneFailed options = Absent")
    case True
    with Inl show ?thesis
      by (intro that [of "[]"]) (simp_all add: checkForGitUpdate_caught_silent)
  next
    case False
    show ?thesis
    proof (cases "toString rt e")
      case thrown: (Inl t)
      with Inl False show ?thesis
        by (intro that [of "[]"]) (simp_all add: checkForGitUpdate_caught_no_text)
    next
      case (Inr message)
      with Inl False show ?thesis
        by (intro that [of "[OnCloneFailed (Some message)]"])
           (simp_all add: checkForGitUpdate_caught)
    qed
  qed
qed

lemma git_pull_branch_trace:
  "filter is_pull (fst (git_pull_branch env options b)) = [GitPull b (folderName options)]"
  "filter is_clone (fst (git_pull_branch env options b)) = []"
  "OnFinishProgress \<notin> set (fst (git_pull_branch env options b))"
  by (cases rule: git_pull_branch_cases [of env b options]; simp)+


lemma git_pull_branch_collaborator_throw:
  assumes "\<forall>x. onPullSuccess options \<noteq> Throws x" and "\<forall>x. onPullFailed options \<noteq> Throws x"
    and "snd (git_pull_branch env options b) = Inl e"
  shows "filter is_git_outcome (fst (git_pull_branch env options b)) = []"
  using assms
  by (cases rule: git_pull_branch_cases [of env b options])
     (simp_all add: cb_result_returns)

lemma git_clone_branch_trace:
  "filter is_clone (fst (git_clone_branch env options)) =
     [GitClone (url options) (branch options) (bundlePath options) (folderName options)]"
  "filter is_pull (fst (git_clone_branch env options)) = []"
  "OnFinishProgress \<notin> set (fst (git_clone_branch env options))"
  by (cases rule: git_clone_branch_cases [of env options]; simp)+



lemma git_clone_branch_collaborator_throw:
  assumes "\<forall>x. onCloneSuccess options \<noteq> Throws x" and "\<forall>x. onCloneFailed options \<noteq> Throws x"
    and "snd (git_clone_branch env options) = Inl e"
  shows "filter is_git_outcome (fst (git_clone_branch env options)) = []"
  using assms
  by (cases rule: git_clone_branch_cases [of env options])
     (simp_all add: cb_result_returns)

lemma checkForGitUpdate_try_trace:
  "OnFinishProgress \<notin> set (fst (checkForGitUpdate_try env options))"
  by (cases rule: checkForGitUpdate_try_cases [of options env];
      simp add: git_pull_branch_trace git_clone_branch_trace)

lemma checkForGitUpdate_try_collaborator_throw:
  assumes "\<forall>x. onPullSuccess options \<noteq> Throws x" and "\<forall>x. onPullFailed options \<noteq> Throws x"
    and "\<forall>x. onCloneSuccess options \<noteq> Throws x" and "\<forall>x. onCloneFailed options \<noteq> Throws x"
    and "snd (checkForGitUpdate_try env options) = Inl e"
  shows "filter is_git_outcome (fst (checkForGitUpdate_try env options)) = []"
  using assms
  by (cases rule: checkForGitUpdate_try_cases [of options env])
     (simp_all add: git_pull_branch_collaborator_throw git_clone_branch_collaborator_throw)

lemma checkForGitUpdate_git_calls:
  "filter is_pull (fst (checkForGitUpdate rt env options)) =
     filter is_pull (fst (checkForGitUpdate_try env options))"
  "filter is_clone (fst (checkForGitUpdate rt env options)) =
     filter is_clone (fst (checkForGitUpdate_try env options))"
  "GitGetConfig \<in> set (fst (checkForGitUpdate rt env options)) \<longleftrightarrow>
     GitGetConfig \<in> set (fst (checkForGitUpdate_try env options))"
  by (rule checkForGitUpdate_trace [of rt env options]; auto)+

text \<open>
  The configuration and the branch name are asked for exactly when \<open>url\<close> and
  \<open>bundlePath\<close> are both non-empty.
\<close>

lemma git_queried_iff_preconditions:
  "GitGetConfig \<in> set (fst (checkForGitUpdate rt env options)) \<longleftrightarrow>
     url options \<noteq> [] \<and> bundlePath options \<noteq> []"
  by (cases rule: checkForGitUpdate_try_cases [of options env])
     (simp_all add: checkForGitUpdate_git_calls)

text \<open>
  C7. In a run that asked git for its configuration and branch name and got both
  answers: when both are truthy, \<open>pullUpdate\<close> is called once and \<open>cloneRepo\<close> is not;
  when one of them is falsy, \<open>cloneRepo\<close> is called once and \<open>pullUpdate\<close> is not.
\<close>

theorem git_pull_xor_clone:
  assumes queried: "GitGetConfig \<in> set (fst (checkForGitUpdate rt env options))"
    and config: "git_getConfig env = Inr config"
    and branchName: "git_getBranchName env = Inr branchName"
  shows "let trace = fst (checkForGitUpdate rt env options);
             both = (config \<noteq> None \<and> (case branchName of None \<Rightarrow> False | Some b \<Rightarrow> b \<noteq> []))
         in (both \<longrightarrow> length (filter is_pull trace) = 1 \<and> filter is_clone trace = []) \<and>
            (\<not> both \<longrightarrow> length (filter is_clone trace) = 1 \<and> filter is_pull trace = [])"
proof -
  from queried have q: "GitGetConfig \<in> set (fst (checkForGitUpdate_try env options))"
    by (simp add: checkForGitUpdate_git_calls)
  show ?thesis
  proof (cases rule: checkForGitUpdate_try_cases [of options env])
    case precondition
    with q show ?thesis by simp
  next
    case (query_rejected e)
    with config branchName show ?thesis by auto
  next
    case (pull cfg b)
    with config branchName show ?thesis
      by (simp only: Let_def checkForGitUpdate_git_calls)
         (auto simp add: git_pull_branch_trace)
  next
    case (clone cfg bn)
    with config branchName show ?thesis
      by (simp only: Let_def checkForGitUpdate_git_calls)
         (auto simp add: git_clone_branch_trace)
  qed
qed

theorem git_pull_xor_clone_witness:
  "GitGetConfig \<in> set (fst (checkForGitUpdate sample_rt sample_env sample_git_option)) \<and>
   git_getConfig sample_env = Inr (Some PlainObject) \<and>
   git_getBranchName sample_env = Inr (Some ''main'') \<and>
   length (filter is_pull (fst (checkForGitUpdate sample_rt sample_env sample_git_option))) = 1 \<and>
   filter is_clone (fst (checkForGitUpdate sample_rt sample_env sample_git_option)) = [] \<and>
   GitGetConfig \<in> set (fst (checkForGitUpdate sample_rt no_config_env sample_git_option)) \<and>
   git_getConfig no_config_env = Inr None \<and>
   git_getBranchName no_config_env = Inr (Some ''main'') \<and>
   length (filter is_clone (fst (checkForGitUpdate sample_rt no_config_env sample_git_option))) = 1 \<and>
   filter is_pull (fst (checkForGitUpdate sample_rt no_config_env sample_git_option)) = []"
proof -
  have q: "GitGetConfig \<in> set (fst (checkForGitUpdate sample_rt sample_env sample_git_option))"
    by code_simp
  have c: "git_getConfig sample_env = Inr (Some PlainObject)" by (simp add: sample_env_def)
  have b: "git_getBranchName sample_env = Inr (Some ''main'')" by (simp add: sample_env_def)
  have q': "GitGetConfig \<in> set (fst (checkForGitUpdate sample_rt no_config_env sample_git_option))"
    by code_simp
  have c': "git_getConfig no_config_env = Inr None"
    by (simp add: no_config_env_def sample_env_def)
  have b': "git_getBranchName no_config_env = Inr (Some ''main'')"
    by (simp add: no_config_env_def sample_env_def)
  from git_pull_xor_clone [OF q c b] git_pull_xor_clone [OF q' c' b'] q c b q' c' b'
  show ?thesis by (simp add: Let_def)
qed

text \<open>
  C8. \<open>onFinishProgress\<close> (supplied) is called exactly once in every run of
  \<open>checkForGitUpdate\<close>, whatever the environment answers, whatever the options are and
  whatever the callbacks do: after a pull, after a clone, after a failed precondition,
  after a caught exception, and after an exception thrown in the \<open>catch\<close> block.
\<close>

theorem onFinishProgress_exactly_once:
  assumes "onFinishProgress options \<noteq> Absent"
  shows "filter (\<lambda>ev. ev = OnFinishProgress) (fst (checkForGitUpdate rt env options)) =
           [OnFinishProgress]"
proof -
  obtain mid where
    t: "fst (checkForGitUpdate rt env options) =
       fst (checkForGitUpdate_try env options) @ mid
         @ (if onFinishProgress options = Absent then [] else [OnFinishProgress])"
    and mid: "mid = [] \<or> (\<exists>m. mid = [OnCloneFailed m])"
    by (rule checkForGitUpdate_trace)
  have "filter (\<lambda>ev. ev = OnFinishProgress) (fst (checkForGitUpdate_try env options)) = []"
    using checkForGitUpdate_try_trace [of env options] by (auto simp add: filter_empty_conv)
  with assms mid show ?thesis unfolding t by auto
qed

theorem onFinishProgress_exactly_once_witness:
  "onFinishProgress sample_git_option \<noteq> Absent \<and>
   filter (\<lambda>ev. ev = OnFinishProgress)
     (fst (checkForGitUpdate sample_rt sample_env sample_git_option)) = [OnFinishProgress] \<and>
   onFinishProgress throwing_pull_success_option \<noteq> Absent \<and>
   snd (checkForGitUpdate_try sample_env throwing_pull_success_option) =
     Inl (JObject (JSError ''callback failed'')) \<and>
   filter (\<lambda>ev. ev = OnFinishProgress)
     (fst (checkForGitUpdate sample_rt sample_env throwing_pull_success_option)) = [OnFinishProgress]"
proof -
  have f: "onFinishProgress sample_git_option \<noteq> Absent" by (simp add: sample_git_option_def)
  have g: "onFinishProgress throwing_pull_success_option \<noteq> Absent"
    by (simp add: throwing_pull_success_option_def sample_git_option_def)
  have t: "snd (checkForGitUpdate_try sample_env throwing_pull_success_option) =
     Inl (JObject (JSError ''callback failed''))"
    by code_simp
  from onFinishProgress_exactly_once [OF f] onFinishProgress_exactly_once [OF g] f g t
  show ?thesis by simp
qed




text \<open>What two of these reports are, evaluated.\<close>

lemma clone_channel_examples:
  "checkForGitUpdate sample_rt config_rejects_env sample_git_option =
     ([GitGetConfig, GitGetBranchName, OnCloneFailed (Some ''no repository''), OnFinishProgress],
      Inr ())"
  "checkForGitUpdate sample_rt exact_rejects_env sample_git_option =
     ([GitGetConfig, GitGetBranchName,
       GitClone ''https://host/repo.git'' None ''output/main.jsbundle'' None,
       SetExactBundlePath ''output/main.jsbundle'',
       OnCloneFailed (Some ''Error: not linked''), OnFinishProgress],
      Inr ())"
  by code_simp+


end
